theory Spec2Isabelle
  imports Complex_Main
begin

section \<open>The platform: double arithmetic and what terminates the process\<close>

text \<open>
  The calculator computes on C++ \<open>double\<close>. The operators of the language on that type,
  \<open>std::pow\<close>, the conversion between \<open>int\<close> and \<open>double\<close>, and the stream operators
  that read and print a \<open>double\<close> are not code of this repository: the model takes them
  as a parameter, a record of operations on an arbitrary type \<open>'d\<close> of values. Every
  general theorem below holds for all such records, IEEE arithmetic included.

  \<^item> \<open>d_add\<close>, \<open>d_sub\<close>, \<open>d_mul\<close>, \<open>d_div\<close>: the operators \<open>+ - * /\<close>;
  \<^item> \<open>d_pow\<close>: \<open>std::pow\<close>;
  \<^item> \<open>d_eq\<close>, \<open>d_lt\<close>: the comparisons \<open>==\<close> and \<open><\<close> (\<open>!=\<close> is the negation of \<open>==\<close>);
  \<^item> \<open>d_of_int\<close>: the conversion of an \<open>int\<close> to \<open>double\<close>, as of the literals \<open>0\<close>
    and \<open>1\<close> where the source compares with, divides or returns them;
  \<^item> \<open>d_to_int\<close>: the cast \<open>(int)x\<close>, \<open>None\<close> where the truncated value is not
    representable in \<open>int\<close> (the behaviour is then undefined);
  \<^item> \<open>d_scan\<close>: what \<open>operator>>\<close> does on the characters at the head of the stream
    once white space is skipped: the value stored, whether the conversion succeeded,
    and the characters left;
  \<^item> \<open>d_print\<close>: the characters \<open>operator<<\<close> writes for a value.
\<close>

record 'd double_ops =
  d_add :: "'d \<Rightarrow> 'd \<Rightarrow> 'd"
  d_sub :: "'d \<Rightarrow> 'd \<Rightarrow> 'd"
  d_mul :: "'d \<Rightarrow> 'd \<Rightarrow> 'd"
  d_div :: "'d \<Rightarrow> 'd \<Rightarrow> 'd"
  d_pow :: "'d \<Rightarrow> 'd \<Rightarrow> 'd"
  d_eq :: "'d \<Rightarrow> 'd \<Rightarrow> bool"
  d_lt :: "'d \<Rightarrow> 'd \<Rightarrow> bool"
  d_of_int :: "int \<Rightarrow> 'd"
  d_to_int :: "'d \<Rightarrow> int option"
  d_scan :: "string \<Rightarrow> 'd \<times> bool \<times> string"
  d_print :: "'d \<Rightarrow> string"

text \<open>
  \<open>throwException\<close> writes its message to \<open>cerr\<close> and calls \<open>std::terminate\<close>: it never
  returns. \<open>Fatal msg\<close> is that end of the process; \<open>Undefined\<close> is an execution whose
  behaviour the language leaves undefined (an out-of-range cast, a read of an array
  slot that was never written, a read of an uninitialised local).
\<close>

datatype fault = Fatal string | Undefined

definition throwException :: "string \<Rightarrow> fault + 'a" where
  "throwException message = Inl (Fatal message)"

text \<open>The repository's own \<open>strlen\<close>: the number of characters before the first NUL. A
  C string is modelled by its characters; the end of the list is the terminator.\<close>

fun strlen :: "string \<Rightarrow> nat" where
  "strlen [] = 0"
| "strlen (c # str) = (if c = CHR 0x00 then 0 else Suc (strlen str))"

section \<open>Operation\<close>

text \<open>The six concrete classes are the six values of \<open>kind\<close>; the virtual call
  \<open>execute\<close> dispatches on it. \<open>name\<close> and \<open>symbol\<close> are the fields of the base class.\<close>

datatype kind = Add | Subtract | Multiply | Divide | Power | Root

record operation =
  kind :: kind
  name :: string
  symbol :: string

definition assertValidity_op :: "operation \<Rightarrow> fault + operation" where
  "assertValidity_op op =
     (if name op = [] then throwException ''Invalid operation name!''
      else if symbol op = [] then throwException ''Invalid operation symbol!''
      else Inr op)"

text \<open>\<open>Operation(name, symbol)\<close> through \<open>copyFrom\<close>, for the class \<open>k\<close>.\<close>

definition Operation :: "kind \<Rightarrow> string \<Rightarrow> string \<Rightarrow> fault + operation" where
  "Operation k nm sy = assertValidity_op \<lparr>kind = k, name = nm, symbol = sy\<rparr>"

definition AddOperation :: "fault + operation" where
  "AddOperation = Operation Add ''Add'' ''+''"

definition SubtractOperation :: "fault + operation" where
  "SubtractOperation = Operation Subtract ''Subtract'' ''-''"

definition MultiplyOperation :: "fault + operation" where
  "MultiplyOperation = Operation Multiply ''Multiply'' ''*''"

definition DivideOperation :: "fault + operation" where
  "DivideOperation = Operation Divide ''Divide'' ''/''"

definition PowerOperation :: "fault + operation" where
  "PowerOperation = Operation Power ''Power'' ''**''"

definition RootOperation :: "fault + operation" where
  "RootOperation = Operation Root ''Root'' ''V''"

text \<open>\<open>createNew\<close>: \<open>new X(*this)\<close>, the copy constructor of the same class.\<close>

definition createNew :: "operation \<Rightarrow> fault + operation" where
  "createNew op = Operation (kind op) (name op) (symbol op)"

definition getName :: "operation \<Rightarrow> string" where
  "getName op = name op"

definition getSymbol :: "operation \<Rightarrow> string" where
  "getSymbol op = symbol op"

definition setName :: "operation \<Rightarrow> string \<Rightarrow> fault + operation" where
  "setName op nm = assertValidity_op (op\<lparr>name := nm\<rparr>)"

definition setSymbol :: "operation \<Rightarrow> string \<Rightarrow> fault + operation" where
  "setSymbol op sy = assertValidity_op (op\<lparr>symbol := sy\<rparr>)"

text \<open>\<open>execute\<close> of each class. In \<open>RootOperation\<close> the second test casts \<open>n2\<close> to
  \<open>int\<close> and compares the result, converted back, with \<open>n2\<close>; the cast is evaluated only
  when \<open>n1 < 0\<close> holds (\<open>&&\<close>) and the first test did not terminate the process.\<close>

fun execute :: "'d double_ops \<Rightarrow> kind \<Rightarrow> 'd \<Rightarrow> 'd \<Rightarrow> fault + 'd" where
  "execute A Add n1 n2 = Inr (d_add A n1 n2)"
| "execute A Subtract n1 n2 = Inr (d_sub A n1 n2)"
| "execute A Multiply n1 n2 = Inr (d_mul A n1 n2)"
| "execute A Divide n1 n2 =
     (if d_eq A n2 (d_of_int A 0) then throwException ''Cannot divide by zero!''
      else Inr (d_div A n1 n2))"
| "execute A Power n1 n2 =
     (if d_eq A n1 (d_of_int A 0) \<and> d_eq A n2 (d_of_int A 0)
      then throwException ''Cannot raise 0 to the power of 0!''
      else Inr (d_pow A n1 n2))"
| "execute A Root n1 n2 =
     (if d_lt A n1 (d_of_int A 0) \<and> d_lt A n2 (d_of_int A 0)
      then throwException ''Cannot take negative root of negative number!''
      else if d_lt A n1 (d_of_int A 0) then
        (case d_to_int A n2 of
           None \<Rightarrow> Inl Undefined
         | Some i \<Rightarrow>
             if \<not> d_eq A (d_of_int A i) n2
             then throwException ''Cannot take fractional root of negative number''
             else Inr (d_pow A n1 (d_div A (d_of_int A 1) n2)))
      else Inr (d_pow A n1 (d_div A (d_of_int A 1) n2)))"

section \<open>Calculator\<close>

text \<open>
  \<open>cname\<close> is the member \<open>name\<close>, a \<open>const char*\<close>: \<open>None\<close> is the null pointer, and
  the string is what the pointer refers to. \<open>operations\<close> is the array
  of \<open>capacityForOperations\<close> pointers that \<open>copyFrom\<close> and the default constructor
  allocate: a slot is \<open>None\<close> until it is written. The model stores the operation a
  pointer refers to; no method of the class changes an operation through the array.
\<close>

record calculator =
  cname :: "string option"
  numberOfSupportedOperations :: nat
  capacityForOperations :: nat
  operations :: "operation option list"

definition MAX_OPERATORS :: nat where
  "MAX_OPERATORS = 16"

definition assertValidity :: "calculator \<Rightarrow> fault + calculator" where
  "assertValidity c =
     (if cname c = None \<or> strlen (the (cname c)) = 0
      then throwException ''Invalid calculator name!''
      else if capacityForOperations c = 0
      then throwException ''Capacity for operations cannot be zero!''
      else Inr c)"

text \<open>The copying loop of \<open>copyFrom\<close>, from index \<open>i\<close>: \<open>dst[i] = src[i]\<close> while
  \<open>i < n\<close>. An index outside either array is undefined behaviour.\<close>

function copy_slots ::
  "nat \<Rightarrow> nat \<Rightarrow> operation option list \<Rightarrow> operation option list
     \<Rightarrow> fault + operation option list" where
  "copy_slots i n src dst =
     (if i < n then
        (if i < length src \<and> i < length dst
         then copy_slots (Suc i) n src (dst[i := src ! i])
         else Inl Undefined)
      else Inr dst)"
  by pat_completeness auto
termination
  by (relation "measure (\<lambda>(i, n, src, dst). n - i)") auto

declare copy_slots.simps [simp del]

definition copyFrom ::
  "string option \<Rightarrow> nat \<Rightarrow> nat \<Rightarrow> operation option list \<Rightarrow> fault + calculator" where
  "copyFrom nm n cap ops =
     (case copy_slots 0 n ops (replicate cap None) of
        Inl f \<Rightarrow> Inl f
      | Inr slots \<Rightarrow>
          assertValidity
            \<lparr>cname = nm, numberOfSupportedOperations = n,
             capacityForOperations = cap, operations = slots\<rparr>)"

text \<open>The three constructors and the assignment operator. \<open>self\<close> says whether the
  right-hand side of the assignment is the object itself (\<open>this == &other\<close>).\<close>

definition Calculator_default :: "fault + calculator" where
  "Calculator_default =
     assertValidity
       \<lparr>cname = Some [], numberOfSupportedOperations = 0,
        capacityForOperations = 2, operations = replicate 2 None\<rparr>"

definition Calculator :: "string option \<Rightarrow> nat \<Rightarrow> operation option list \<Rightarrow> fault + calculator" where
  "Calculator nm n ops = copyFrom nm n MAX_OPERATORS ops"

definition Calculator_copy :: "calculator \<Rightarrow> fault + calculator" where
  "Calculator_copy other =
     copyFrom (cname other) (numberOfSupportedOperations other)
       (capacityForOperations other) (operations other)"

definition Calculator_assign :: "bool \<Rightarrow> calculator \<Rightarrow> calculator \<Rightarrow> fault + calculator" where
  "Calculator_assign self this other =
     (if \<not> self then Calculator_copy other else Inr this)"

text \<open>
  \<open>addOperation\<close> changes the object and then evaluates \<open>*new Calculator()\<close> for its
  return value. The result is the pair of the returned calculator and the object, or
  the fault together with the object as it is when the process ends.
\<close>

definition addOperation ::
  "calculator \<Rightarrow> operation \<Rightarrow> (fault \<times> calculator) + (calculator \<times> calculator)" where
  "addOperation c op =
     (if numberOfSupportedOperations c = capacityForOperations c
      then Inl (Fatal ''Capacity for operations exceeded!'', c)
      else
        (case createNew op of
           Inl f \<Rightarrow> Inl (f, c)
         | Inr cl \<Rightarrow>
             if numberOfSupportedOperations c < length (operations c) then
               (let c' = c\<lparr>operations := (operations c)[numberOfSupportedOperations c := Some cl],
                           numberOfSupportedOperations := Suc (numberOfSupportedOperations c)\<rparr>
                in case Calculator_default of
                     Inl f \<Rightarrow> Inl (f, c')
                   | Inr fresh \<Rightarrow> Inr (fresh, c'))
             else Inl (Undefined, c)))"

section \<open>The standard streams\<close>

text \<open>
  \<open>cin\<close> is the characters not yet read, with the \<open>failbit\<close> and \<open>eofbit\<close> of its state;
  the list is the whole remaining input, so its end is the end of file. The functions
  of this section model the stream operations of the C++ library that the program
  calls, for the classic locale. An input operation that finds the stream not good
  sets \<open>failbit\<close> and reads nothing; the variable it was to assign keeps its value.
\<close>

record istream =
  buf :: string
  failbit :: bool
  eofbit :: bool

definition good :: "istream \<Rightarrow> bool" where
  "good s = (\<not> failbit s \<and> \<not> eofbit s)"

definition clear :: "istream \<Rightarrow> istream" where
  "clear s = s\<lparr>failbit := False, eofbit := False\<rparr>"

definition newline :: char where
  "newline = CHR 0x0A"

definition endl :: string where
  "endl = [newline]"

definition isspace :: "char \<Rightarrow> bool" where
  "isspace c = (c = CHR '' '' \<or> c = CHR 0x09 \<or> c = CHR 0x0A \<or> c = CHR 0x0B
                 \<or> c = CHR 0x0C \<or> c = CHR 0x0D)"

definition isdigit :: "char \<Rightarrow> bool" where
  "isdigit c = (c \<in> set ''0123456789'')"

text \<open>The sentry of a formatted input operation: white space is skipped; reaching the
  end of the input there sets both bits.\<close>

definition sentry :: "istream \<Rightarrow> bool \<times> istream" where
  "sentry s =
     (if \<not> good s then (False, s\<lparr>failbit := True\<rparr>)
      else
        (let b = dropWhile isspace (buf s)
         in if b = [] then (False, s\<lparr>buf := [], failbit := True, eofbit := True\<rparr>)
            else (True, s\<lparr>buf := b\<rparr>)))"

text \<open>\<open>cin >> str\<close> for a \<open>std::string\<close>: the characters up to the next white space.\<close>

definition get_string :: "istream \<Rightarrow> string \<Rightarrow> string \<times> istream" where
  "get_string s old =
     (case sentry s of
        (False, s1) \<Rightarrow> (old, s1)
      | (True, s1) \<Rightarrow>
          (let rest = dropWhile (\<lambda>c. \<not> isspace c) (buf s1)
           in (takeWhile (\<lambda>c. \<not> isspace c) (buf s1),
               s1\<lparr>buf := rest, eofbit := (rest = [])\<rparr>)))"

text \<open>\<open>cin >> x\<close> for a \<open>double\<close>. The variable may be uninitialised (\<open>None\<close>); a
  conversion that fails still stores the value the library gives (zero).\<close>

definition get_double :: "'d double_ops \<Rightarrow> istream \<Rightarrow> 'd option \<Rightarrow> 'd option \<times> istream" where
  "get_double A s old =
     (case sentry s of
        (False, s1) \<Rightarrow> (old, s1)
      | (True, s1) \<Rightarrow>
          (case d_scan A (buf s1) of
             (v, ok, rest) \<Rightarrow>
               (Some v, s1\<lparr>buf := rest, failbit := \<not> ok, eofbit := (rest = [])\<rparr>)))"

text \<open>Integers in decimal: an optional sign, then digits. The result is the sign, the
  digits read and the characters left.\<close>

definition digits_val :: "string \<Rightarrow> nat" where
  "digits_val ds = foldl (\<lambda>a c. 10 * a + (of_char c - 48)) 0 ds"

definition scan_integer :: "string \<Rightarrow> bool \<times> string \<times> string" where
  "scan_integer b =
     (let neg = (b \<noteq> [] \<and> hd b = CHR ''-'');
          b1 = (if b \<noteq> [] \<and> (hd b = CHR ''-'' \<or> hd b = CHR ''+'') then tl b else b)
      in (neg, takeWhile isdigit b1, dropWhile isdigit b1))"

definition SIZE_MAX :: nat where
  "SIZE_MAX = 2 ^ 64 - 1"

text \<open>\<open>cin >> n\<close> for a \<open>size_t\<close> (64 bits): no digit is a failure that stores 0, a value
  above \<open>SIZE_MAX\<close> a failure that stores \<open>SIZE_MAX\<close>, and a minus sign negates modulo
  \<open>2 ^ 64\<close>.\<close>

definition get_size_t :: "istream \<Rightarrow> nat option \<Rightarrow> nat option \<times> istream" where
  "get_size_t s old =
     (case sentry s of
        (False, s1) \<Rightarrow> (old, s1)
      | (True, s1) \<Rightarrow>
          (case scan_integer (buf s1) of
             (neg, ds, rest) \<Rightarrow>
               (let s2 = s1\<lparr>buf := rest, eofbit := (rest = [])\<rparr>
                in if ds = [] then (Some 0, s2\<lparr>failbit := True\<rparr>)
                   else if digits_val ds > SIZE_MAX then (Some SIZE_MAX, s2\<lparr>failbit := True\<rparr>)
                   else if neg then (Some ((2 ^ 64 - digits_val ds) mod 2 ^ 64), s2)
                   else (Some (digits_val ds), s2))))"

text \<open>\<open>cin >> n\<close> for a \<open>short\<close>: a value outside the type is a failure that stores
  the nearest bound.\<close>

definition get_short :: "istream \<Rightarrow> int option \<Rightarrow> int option \<times> istream" where
  "get_short s old =
     (case sentry s of
        (False, s1) \<Rightarrow> (old, s1)
      | (True, s1) \<Rightarrow>
          (case scan_integer (buf s1) of
             (neg, ds, rest) \<Rightarrow>
               (let s2 = s1\<lparr>buf := rest, eofbit := (rest = [])\<rparr>;
                    v = (if neg then - int (digits_val ds) else int (digits_val ds))
                in if ds = [] then (Some 0, s2\<lparr>failbit := True\<rparr>)
                   else if v < - 32768 then (Some (- 32768), s2\<lparr>failbit := True\<rparr>)
                   else if v > 32767 then (Some 32767, s2\<lparr>failbit := True\<rparr>)
                   else (Some v, s2))))"

text \<open>\<open>cin.ignore(numeric_limits<streamsize>::max(), '\n')\<close>: discards up to and
  including the next newline, or to the end of the input.\<close>

definition ignore_line :: "istream \<Rightarrow> istream" where
  "ignore_line s =
     (if \<not> good s then s\<lparr>failbit := True\<rparr>
      else
        (case dropWhile (\<lambda>c. c \<noteq> newline) (buf s) of
           [] \<Rightarrow> s\<lparr>buf := [], eofbit := True\<rparr>
         | c # rest \<Rightarrow> s\<lparr>buf := rest\<rparr>))"

text \<open>\<open>cin.getline(p, n)\<close>: at most \<open>n - 1\<close> characters of the line; the newline is
  read and not stored. The result is the C string stored at \<open>p\<close>.\<close>

definition getline :: "istream \<Rightarrow> nat \<Rightarrow> string \<times> istream" where
  "getline s n =
     (if \<not> good s then ([], s\<lparr>failbit := True\<rparr>)
      else
        (let line = takeWhile (\<lambda>c. c \<noteq> newline) (buf s);
             rest = dropWhile (\<lambda>c. c \<noteq> newline) (buf s)
         in if n - 1 < length line
            then (take (n - 1) line, s\<lparr>buf := drop (n - 1) (buf s), failbit := True\<rparr>)
            else if rest = []
            then (line, s\<lparr>buf := [], eofbit := True, failbit := (line = [])\<rparr>)
            else (line, s\<lparr>buf := tl rest\<rparr>)))"

text \<open>The state of the process outside the objects: the two streams and the static
  member \<open>Calculator::numberOfSuccessfulCalculations\<close>, a \<open>double\<close>. What was written
  to \<open>cerr\<close> is the message of the fault.\<close>

record 'd world =
  cin :: istream
  cout :: string
  numberOfSuccessfulCalculations :: 'd

definition print :: "string \<Rightarrow> 'd world \<Rightarrow> 'd world" where
  "print str w = w\<lparr>cout := cout w @ str\<rparr>"

section \<open>The methods of Calculator that read and write\<close>

text \<open>\<open>calculate\<close>: the loop over the array, from index \<open>i\<close>.\<close>

function calculate_from ::
  "'d double_ops \<Rightarrow> calculator \<Rightarrow> 'd \<Rightarrow> 'd \<Rightarrow> string \<Rightarrow> nat \<Rightarrow> fault + 'd" where
  "calculate_from A c n1 n2 op i =
     (if i < numberOfSupportedOperations c then
        (if i < length (operations c) then
           (case operations c ! i of
              None \<Rightarrow> Inl Undefined
            | Some p \<Rightarrow>
                if getSymbol p = op then execute A (kind p) n1 n2
                else calculate_from A c n1 n2 op (Suc i))
         else Inl Undefined)
      else Inr (d_of_int A 0))"
  by pat_completeness auto
termination
  by (relation "measure (\<lambda>(A, c, n1, n2, op, i). numberOfSupportedOperations c - i)") auto

declare calculate_from.simps [simp del]

definition calculate :: "'d double_ops \<Rightarrow> calculator \<Rightarrow> 'd \<Rightarrow> 'd \<Rightarrow> string \<Rightarrow> fault + 'd" where
  "calculate A c n1 n2 op = calculate_from A c n1 n2 op 0"

text \<open>\<open>listSupportedOperations\<close>: the loop from index \<open>i\<close>.\<close>

function list_from :: "calculator \<Rightarrow> nat \<Rightarrow> 'd world \<Rightarrow> (fault \<times> 'd world) + 'd world" where
  "list_from c i w =
     (if i < numberOfSupportedOperations c then
        (if i < length (operations c) then
           (case operations c ! i of
              None \<Rightarrow> Inl (Undefined, w)
            | Some p \<Rightarrow>
                list_from c (Suc i) (print (getSymbol p @ '' - '' @ getName p @ endl) w))
         else Inl (Undefined, w))
      else Inr w)"
  by pat_completeness auto
termination
  by (relation "measure (\<lambda>(c, i, w). numberOfSupportedOperations c - i)") auto

declare list_from.simps [simp del]

definition listSupportedOperations :: "calculator \<Rightarrow> 'd world \<Rightarrow> (fault \<times> 'd world) + 'd world" where
  "listSupportedOperations c w = list_from c 0 w"

definition listInputFormat :: "calculator \<Rightarrow> 'd world \<Rightarrow> 'd world" where
  "listInputFormat c w =
     print (''Please make sure to include spaces between each number and operator.'' @ endl)
       (print (''<num1> <symbol> <num2> <symbol> <num3> ... <numN> ='' @ endl) w)"

definition getNumberOfSuccessfulCalculations :: "calculator \<Rightarrow> 'd world \<Rightarrow> 'd" where
  "getNumberOfSuccessfulCalculations c w = numberOfSuccessfulCalculations w"

text \<open>
  The \<open>while(true)\<close> loop of \<open>startCalculation\<close>, with the locals \<open>result\<close>, \<open>num2\<close>
  (\<open>None\<close> while uninitialised) and \<open>op\<close>. The loop need not end: the value is \<open>None\<close>
  when it does not. It ends with \<open>Inr\<close> at the token \<open>=\<close>, and with \<open>Inl\<close> when the
  process ends inside \<open>calculate\<close>.
\<close>

partial_function (option) calculation_loop ::
  "'d double_ops \<Rightarrow> calculator \<Rightarrow> istream \<Rightarrow> 'd option \<Rightarrow> 'd option \<Rightarrow> string
     \<Rightarrow> ((fault \<times> istream) + ('d option \<times> istream)) option" where
  "calculation_loop A c s result num2 op =
     (case get_string s op of
        (op', s1) \<Rightarrow>
          if op' = ''='' then Some (Inr (result, s1))
          else
            (case get_double A s1 num2 of
               (num2', s2) \<Rightarrow>
                 (case result of
                    None \<Rightarrow> Some (Inl (Undefined, s2))
                  | Some n1 \<Rightarrow>
                      (case num2' of
                         None \<Rightarrow> Some (Inl (Undefined, s2))
                       | Some n2 \<Rightarrow>
                           (case calculate A c n1 n2 op' of
                              Inl f \<Rightarrow> Some (Inl (f, s2))
                            | Inr r \<Rightarrow> calculation_loop A c s2 (Some r) num2' op')))))"

definition startCalculation ::
  "'d double_ops \<Rightarrow> calculator \<Rightarrow> 'd world \<Rightarrow> ((fault \<times> 'd world) + 'd world) option" where
  "startCalculation A c w =
     (case get_double A (cin w) None of
        (result, s0) \<Rightarrow>
          (case calculation_loop A c s0 result None [] of
             None \<Rightarrow> None
           | Some (Inl (f, s)) \<Rightarrow> Some (Inl (f, w\<lparr>cin := s\<rparr>))
           | Some (Inr (None, s)) \<Rightarrow> Some (Inl (Undefined, w\<lparr>cin := s\<rparr>))
           | Some (Inr (Some r, s)) \<Rightarrow>
               Some (Inr (w\<lparr>cin := s,
                            numberOfSuccessfulCalculations :=
                              d_add A (numberOfSuccessfulCalculations w) (d_of_int A 1),
                            cout := cout w @ d_print A r @ endl\<rparr>))))"

section \<open>The driver\<close>

definition createOperation :: "string \<Rightarrow> fault + operation" where
  "createOperation operationSymbol =
     (if operationSymbol = ''+'' then AddOperation
      else if operationSymbol = ''-'' then SubtractOperation
      else if operationSymbol = ''*'' then MultiplyOperation
      else if operationSymbol = ''/'' then DivideOperation
      else if operationSymbol = ''**'' then PowerOperation
      else if operationSymbol = ''V'' then RootOperation
      else throwException ''Invalid operator!'')"

text \<open>
  The \<open>do ... while(true)\<close> loop of \<open>main\<close> that reads \<open>numberOfOperations\<close>, a
  \<open>size_t\<close> that is uninitialised before the first read. \<open>cin.fail()\<close> is the
  \<open>failbit\<close>. The loop need not end: the value is \<open>None\<close> when it does not.
\<close>

partial_function (option) read_numberOfOperations ::
  "'d world \<Rightarrow> nat option \<Rightarrow> ((fault \<times> 'd world) + (nat \<times> 'd world)) option" where
  "read_numberOfOperations w numberOfOperations =
     (case get_size_t (cin w) numberOfOperations of
        (n, s1) \<Rightarrow>
          (let w1 = (print ''Enter number of operations: '' w)\<lparr>cin := s1\<rparr>
           in if failbit s1
              then read_numberOfOperations
                     ((print (''Couldn'' @ CHR 0x27 # ''t convert to number!'' @ endl) w1)
                        \<lparr>cin := ignore_line (clear s1)\<rparr>) n
              else
                (case n of
                   None \<Rightarrow> Some (Inl (Undefined, w1))
                 | Some k \<Rightarrow>
                     if k > MAX_OPERATORS
                     then read_numberOfOperations
                            ((print (''Exceeded operator capacity of 16!'' @ endl) w1)
                               \<lparr>cin := ignore_line (clear s1)\<rparr>) n
                     else Some (Inr (k, w1)))))"

text \<open>The \<open>for\<close> loop that reads one batch of symbols, from index \<open>i\<close>: the result is
  \<open>valid\<close>, the stream, \<open>operationList\<close> and what the loop printed.\<close>

function read_batch ::
  "nat \<Rightarrow> nat \<Rightarrow> istream \<Rightarrow> string \<Rightarrow> string list \<Rightarrow> string
     \<Rightarrow> fault + (bool \<times> istream \<times> string list \<times> string)" where
  "read_batch i n s operationSymbol operationList out =
     (if i < n then
        (case get_string s operationSymbol of
           (sy, s1) \<Rightarrow>
             if sy = ''+'' \<or> sy = ''-'' \<or> sy = ''*'' \<or> sy = ''/'' \<or> sy = ''**'' \<or> sy = ''V''
             then (if i < length operationList
                   then read_batch (Suc i) n s1 sy (operationList[i := sy]) out
                   else Inl Undefined)
             else Inr (False, s1, operationList, out @ ''Invalid operator!'' @ endl))
      else Inr (True, s, operationList, out))"
  by pat_completeness auto
termination
  by (relation "measure (\<lambda>(i, n, s, sy, ol, out). n - i)") auto

declare read_batch.simps [simp del]

text \<open>The \<open>while(true)\<close> loop around it: after every batch the stream is cleared and
  the rest of the line discarded; the loop ends when the batch was valid.\<close>

partial_function (option) read_operationList ::
  "'d world \<Rightarrow> nat \<Rightarrow> string list \<Rightarrow> ((fault \<times> 'd world) + (string list \<times> 'd world)) option" where
  "read_operationList w numberOfOperations operationList =
     (case read_batch 0 numberOfOperations (cin w) [] operationList [] of
        Inl f \<Rightarrow> Some (Inl (f, w))
      | Inr (valid, s1, operationList', out) \<Rightarrow>
          (let w1 = (print out w)\<lparr>cin := ignore_line (clear s1)\<rparr>
           in if valid then Some (Inr (operationList', w1))
              else read_operationList w1 numberOfOperations operationList'))"

text \<open>The loop that fills \<open>ops\<close> with \<open>createOperation(operationList[i])\<close>.\<close>

function create_from ::
  "nat \<Rightarrow> nat \<Rightarrow> string list \<Rightarrow> operation option list \<Rightarrow> fault + operation option list" where
  "create_from i n operationList ops =
     (if i < n then
        (if i < length operationList \<and> i < length ops then
           (case createOperation (operationList ! i) of
              Inl f \<Rightarrow> Inl f
            | Inr p \<Rightarrow> create_from (Suc i) n operationList (ops[i := Some p]))
         else Inl Undefined)
      else Inr ops)"
  by pat_completeness auto
termination
  by (relation "measure (\<lambda>(i, n, ol, ops). n - i)") auto

declare create_from.simps [simp del]

definition legend :: string where
  "legend = ''Enter operations: '' @ endl @ ''+ - add'' @ endl @ ''- - subtract'' @ endl
     @ ''* - multiply'' @ endl @ ''/ - divide'' @ endl @ ''** - power'' @ endl
     @ ''V - root'' @ endl"

text \<open>The lines of \<open>main\<close> that build the calculator from the name, the count and
  the symbols read: the array \<open>ops\<close> of 16 pointers, filled by \<open>createOperation\<close>, and
  the parameterized constructor.\<close>

definition build_calculator :: "string \<Rightarrow> nat \<Rightarrow> string list \<Rightarrow> fault + calculator" where
  "build_calculator calculatorName numberOfOperations operationList =
     (case create_from 0 numberOfOperations operationList (replicate MAX_OPERATORS None) of
        Inl f \<Rightarrow> Inl f
      | Inr ops \<Rightarrow> Calculator (Some calculatorName) numberOfOperations ops)"

text \<open>\<open>main\<close> up to the construction of the calculator.\<close>

definition main_setup :: "'d world \<Rightarrow> ((fault \<times> 'd world) + (calculator \<times> 'd world)) option" where
  "main_setup w =
     (case getline (cin w) 256 of
        (calculatorName, s1) \<Rightarrow>
          (case read_numberOfOperations
                  ((print (''Enter calculator'' @ CHR 0x27 # ''s name: '') w)\<lparr>cin := s1\<rparr>) None of
             None \<Rightarrow> None
           | Some (Inl e) \<Rightarrow> Some (Inl e)
           | Some (Inr (numberOfOperations, w2)) \<Rightarrow>
               (case read_operationList (print legend w2) numberOfOperations
                       (replicate MAX_OPERATORS []) of
                  None \<Rightarrow> None
                | Some (Inl e) \<Rightarrow> Some (Inl e)
                | Some (Inr (operationList, w3)) \<Rightarrow>
                    (case build_calculator calculatorName numberOfOperations operationList of
                       Inl f \<Rightarrow> Some (Inl (f, w3))
                     | Inr calc \<Rightarrow> Some (Inr (calc, w3))))))"

definition menu :: string where
  "menu = ''1. List supported operations'' @ endl @ ''2. List input format'' @ endl
     @ ''3. Start calculation'' @ endl @ ''4. Exit'' @ endl"

text \<open>The menu loop. \<open>chosenOption\<close> is a \<open>short\<close> declared in the body: it is
  uninitialised when the read finds the stream not good. The value is \<open>None\<close> when the
  loop, or a calculation started from it, does not end.\<close>

partial_function (option) menu_loop ::
  "'d double_ops \<Rightarrow> calculator \<Rightarrow> 'd world \<Rightarrow> ((fault \<times> 'd world) + 'd world) option" where
  "menu_loop A calc w =
     (case get_short (cin w) None of
        (chosenOption, s1) \<Rightarrow>
          (let w1 = (print menu w)\<lparr>cin := s1\<rparr>
           in case chosenOption of
                None \<Rightarrow> Some (Inl (Undefined, w1))
              | Some k \<Rightarrow>
                  if k = 1 then
                    (case listSupportedOperations calc w1 of
                       Inl e \<Rightarrow> Some (Inl e)
                     | Inr w2 \<Rightarrow> menu_loop A calc w2)
                  else if k = 2 then menu_loop A calc (listInputFormat calc w1)
                  else if k = 3 then
                    (case startCalculation A calc w1 of
                       None \<Rightarrow> None
                     | Some (Inl e) \<Rightarrow> Some (Inl e)
                     | Some (Inr w2) \<Rightarrow> menu_loop A calc w2)
                  else if k = 4 then Some (Inr w1)
                  else menu_loop A calc
                         ((print (''Invalid option, try again.'' @ endl) w1)
                            \<lparr>cin := ignore_line (clear s1)\<rparr>)))"

text \<open>\<open>main\<close> up to the end of the menu loop; the deallocations that follow it are
  outside the model.\<close>

definition main :: "'d double_ops \<Rightarrow> 'd world \<Rightarrow> ((fault \<times> 'd world) + 'd world) option" where
  "main A w =
     (case main_setup w of
        None \<Rightarrow> None
      | Some (Inl e) \<Rightarrow> Some (Inl e)
      | Some (Inr (calc, w1)) \<Rightarrow> menu_loop A calc w1)"

section \<open>An interpretation of the arithmetic\<close>

text \<open>
  The scenarios need values. \<open>ideal\<close> interprets \<open>double\<close> by the reals with exact
  operations; it agrees with IEEE arithmetic where operands and results are
  representable and nothing is rounded, as on the small integers of the scenarios
  below. \<open>std::pow\<close> and the printing of a value stay parameters. \<open>int\<close> has 32 bits.
  \<open>scan_decimal\<close> reads an optional sign, digits with an optional fraction, and an
  optional exponent; without a digit in the mantissa, or with an exponent mark and no
  digit after it, the conversion fails and the value is zero.
\<close>

definition truncate :: "real \<Rightarrow> int" where
  "truncate x = (if 0 \<le> x then \<lfloor>x\<rfloor> else \<lceil>x\<rceil>)"

definition cast_int :: "real \<Rightarrow> int option" where
  "cast_int x =
     (if - 2147483648 \<le> truncate x \<and> truncate x \<le> 2147483647 then Some (truncate x)
      else None)"

definition scan_decimal :: "string \<Rightarrow> real \<times> bool \<times> string" where
  "scan_decimal b =
     (case scan_integer b of
        (neg, ds, b1) \<Rightarrow>
          (let dot = (b1 \<noteq> [] \<and> hd b1 = CHR ''.'');
               fs = (if dot then takeWhile isdigit (tl b1) else []);
               b2 = (if dot then dropWhile isdigit (tl b1) else b1);
               mant = real (digits_val ds) + real (digits_val fs) / 10 ^ length fs;
               sci = ((ds \<noteq> [] \<or> fs \<noteq> []) \<and> b2 \<noteq> [] \<and> (hd b2 = CHR ''e'' \<or> hd b2 = CHR ''E''))
           in if \<not> sci
              then (if ds = [] \<and> fs = [] then (0, False, b2)
                    else ((if neg then - mant else mant), True, b2))
              else
                (case scan_integer (tl b2) of
                   (eneg, es, b3) \<Rightarrow>
                     if es = [] then (0, False, b3)
                     else ((if neg then - mant else mant)
                             * (if eneg then 1 / 10 ^ digits_val es else 10 ^ digits_val es),
                           True, b3))))"

definition ideal :: "(real \<Rightarrow> real \<Rightarrow> real) \<Rightarrow> (real \<Rightarrow> string) \<Rightarrow> real double_ops" where
  "ideal pw pr =
     \<lparr>d_add = (+), d_sub = (-), d_mul = (*), d_div = (/), d_pow = pw,
      d_eq = (=), d_lt = (<), d_of_int = real_of_int, d_to_int = cast_int,
      d_scan = scan_decimal, d_print = pr\<rparr>"

section \<open>Notions of the specification\<close>

text \<open>The invariant of a calculator: the name is a non-empty C string, the capacity
  is positive, and the number of stored operations is at most the capacity.\<close>

definition invariant :: "calculator \<Rightarrow> bool" where
  "invariant c =
     ((case cname c of None \<Rightarrow> False | Some nm \<Rightarrow> 0 < strlen nm)
      \<and> 0 < capacityForOperations c
      \<and> numberOfSupportedOperations c \<le> capacityForOperations c)"

text \<open>A calculator whose first \<open>numberOfSupportedOperations\<close> slots lie in the array and
  were written; \<open>stored\<close> is then the operations in them, in the order of insertion.\<close>

definition initialised :: "calculator \<Rightarrow> bool" where
  "initialised c =
     (numberOfSupportedOperations c \<le> length (operations c)
      \<and> list_all (\<lambda>slot. slot \<noteq> None) (take (numberOfSupportedOperations c) (operations c)))"

definition stored :: "calculator \<Rightarrow> operation list" where
  "stored c = map the (take (numberOfSupportedOperations c) (operations c))"

text \<open>The lookup of the specification: the first stored operation with the symbol.\<close>

definition lookup :: "calculator \<Rightarrow> string \<Rightarrow> operation option" where
  "lookup c op = find (\<lambda>p. symbol p = op) (stored c)"

text \<open>The line of the listing for one operation.\<close>

definition line_of :: "operation \<Rightarrow> string" where
  "line_of p = symbol p @ '' - '' @ name p @ ''\<newline>''"

text \<open>The left-to-right evaluation of the specification: from the running result
  \<open>r\<close>, each step \<open>(op, n)\<close> replaces it with \<open>execute\<close> of the operation looked up
  for \<open>op\<close> on the running result and \<open>n\<close>, or with zero when the lookup finds none;
  a fault ends the evaluation.\<close>

fun run_steps :: "'d double_ops \<Rightarrow> calculator \<Rightarrow> 'd \<Rightarrow> (string \<times> 'd) list \<Rightarrow> fault + 'd" where
  "run_steps A c r [] = Inr r"
| "run_steps A c r ((op, n) # steps) =
     (case (case lookup c op of
              None \<Rightarrow> Inr (d_of_int A 0)
            | Some p \<Rightarrow> execute A (kind p) r n) of
        Inl f \<Rightarrow> Inl f
      | Inr r' \<Rightarrow> run_steps A c r' steps)"

text \<open>What it means that the stream presents an expression: \<open>reads_steps\<close> is the
  stream after the operator tokens and operands of \<open>steps\<close> have been read from it in
  turn, each read succeeding; \<open>reads_expression\<close> reads the first operand before
  them, and \<open>reads_end\<close> the token \<open>=\<close>.\<close>

fun reads_steps :: "'d double_ops \<Rightarrow> istream \<Rightarrow> (string \<times> 'd) list \<Rightarrow> istream option" where
  "reads_steps A s [] = Some s"
| "reads_steps A s ((op, n) # steps) =
     (case get_string s [] of
        (t, s1) \<Rightarrow>
          if t = op \<and> op \<noteq> ''='' \<and> \<not> failbit s1 then
            (case get_double A s1 None of
               (v, s2) \<Rightarrow>
                 if v = Some n \<and> \<not> failbit s2 then reads_steps A s2 steps else None)
          else None)"

definition reads_expression ::
  "'d double_ops \<Rightarrow> istream \<Rightarrow> 'd \<Rightarrow> (string \<times> 'd) list \<Rightarrow> istream option" where
  "reads_expression A s n0 steps =
     (case get_double A s None of
        (v, s0) \<Rightarrow> if v = Some n0 \<and> \<not> failbit s0 then reads_steps A s0 steps else None)"

definition reads_end :: "istream \<Rightarrow> istream option" where
  "reads_end s = (case get_string s [] of (t, s') \<Rightarrow> if t = ''='' then Some s' else None)"

text \<open>The prompt for the count as the specification describes it. \<open>rejected_attempts s m\<close>
  is the stream and the output after \<open>m\<close> attempts from \<open>s\<close> that were each rejected:
  the read failed, or gave a number above 16; the error was reported, the state
  cleared and the rest of the line discarded. \<open>accepted_count\<close> is a read that
  succeeds with a count of at most 16.\<close>

definition prompt :: string where
  "prompt = ''Enter number of operations: ''"

fun rejected_attempts :: "istream \<Rightarrow> nat \<Rightarrow> (istream \<times> string) option" where
  "rejected_attempts s 0 = Some (s, [])"
| "rejected_attempts s (Suc m) =
     (case get_size_t s None of
        (n, s1) \<Rightarrow>
          if failbit s1
          then map_option
                 (\<lambda>(s', out). (s', prompt @ ''Couldn'' @ CHR 0x27 # ''t convert to number!\<newline>'' @ out))
                 (rejected_attempts (ignore_line (clear s1)) m)
          else if (case n of None \<Rightarrow> False | Some k \<Rightarrow> 16 < k)
          then map_option
                 (\<lambda>(s', out). (s', prompt @ ''Exceeded operator capacity of 16!\<newline>'' @ out))
                 (rejected_attempts (ignore_line (clear s1)) m)
          else None)"

definition accepted_count :: "istream \<Rightarrow> (nat \<times> istream) option" where
  "accepted_count s =
     (case get_size_t s None of
        (n, s1) \<Rightarrow>
          (case n of
             None \<Rightarrow> None
           | Some k \<Rightarrow> if \<not> failbit s1 \<and> k \<le> 16 then Some (k, s1) else None))"

text \<open>The stream after \<open>m\<close> consecutive reads \<open>cin >> operationSymbol\<close>.\<close>

fun after_reads :: "nat \<Rightarrow> istream \<Rightarrow> string \<Rightarrow> istream" where
  "after_reads 0 s sy = s"
| "after_reads (Suc m) s sy = (case get_string s sy of (sy', s1) \<Rightarrow> after_reads m s1 sy')"

section \<open>Properties\<close>

subsection \<open>Construction\<close>

lemma Calculator_default_fatal:
  "Calculator_default = Inl (Fatal ''Invalid calculator name!'')"
  by (simp add: Calculator_default_def assertValidity_def throwException_def)

lemma copy_slots_Inr:
  "copy_slots i n src dst = Inr r \<Longrightarrow> i < n \<Longrightarrow> n \<le> length src \<and> n \<le> length dst"
proof (induction i n src dst rule: copy_slots.induct)
  case (1 i n src dst)
  from "1.prems" have in_range: "i < length src" "i < length dst"
    by (auto simp: copy_slots.simps [of i] split: if_splits)
  with "1.prems" have rec: "copy_slots (Suc i) n src (dst[i := src ! i]) = Inr r"
    by (simp add: copy_slots.simps [of i])
  show ?case
  proof (cases "Suc i < n")
    case True
    with "1.IH" [OF \<open>i < n\<close> _ rec] in_range show ?thesis by simp
  next
    case False
    with \<open>i < n\<close> have "n = Suc i" by simp
    with in_range show ?thesis by simp
  qed
qed

lemma copy_slots_result:
  "i \<le> n \<Longrightarrow> n \<le> length src \<Longrightarrow> n \<le> length dst \<Longrightarrow>
   copy_slots i n src dst = Inr (take i dst @ drop i (take n src) @ drop n dst)"
proof (induction i n src dst rule: copy_slots.induct)
  case (1 i n src dst)
  show ?case
  proof (cases "i < n")
    case False
    with "1.prems" have "i = n" by simp
    then show ?thesis by (simp add: copy_slots.simps [of n])
  next
    case True
    with "1.prems" have in_range: "i < length src" "i < length dst" by simp_all
    have "copy_slots (Suc i) n src (dst[i := src ! i]) =
          Inr (take (Suc i) (dst[i := src ! i]) @ drop (Suc i) (take n src)
               @ drop n (dst[i := src ! i]))"
      using "1.IH" [OF True] in_range True "1.prems" by simp
    moreover have "take (Suc i) (dst[i := src ! i]) = take i dst @ [src ! i]"
      using in_range by (simp add: take_Suc_conv_app_nth)
    moreover have "drop n (dst[i := src ! i]) = drop n dst"
      using True by simp
    moreover have "drop i (take n src) = src ! i # drop (Suc i) (take n src)"
    proof -
      have "i < length (take n src)" using True in_range by simp
      then have "drop i (take n src) = take n src ! i # drop (Suc i) (take n src)"
        by (rule Cons_nth_drop_Suc [symmetric])
      then show ?thesis using True by simp
    qed
    ultimately show ?thesis
      using True in_range by (simp add: copy_slots.simps [of i])
  qed
qed

lemma copyFrom_Inr:
  assumes "copyFrom nm n cap ops = Inr c"
  shows "cname c = nm \<and> numberOfSupportedOperations c = n \<and> capacityForOperations c = cap
         \<and> length (operations c) = cap \<and> n \<le> cap \<and> invariant c"
proof -
  from assms obtain slots where
    slots: "copy_slots 0 n ops (replicate cap None) = Inr slots" and
    valid: "assertValidity \<lparr>cname = nm, numberOfSupportedOperations = n,
              capacityForOperations = cap, operations = slots\<rparr> = Inr c"
    by (auto simp: copyFrom_def split: sum.splits)
  from valid have c: "c = \<lparr>cname = nm, numberOfSupportedOperations = n,
      capacityForOperations = cap, operations = slots\<rparr>"
    and nm: "nm \<noteq> None" "strlen (the nm) \<noteq> 0" and cap: "cap \<noteq> 0"
    by (auto simp: assertValidity_def throwException_def split: if_splits)
  have le: "n \<le> cap"
  proof (cases "0 < n")
    case True
    from copy_slots_Inr [OF slots True] show ?thesis by simp
  next
    case False
    then show ?thesis by simp
  qed
  have len: "length slots = cap"
  proof (cases "0 < n")
    case True
    from copy_slots_Inr [OF slots True] have "n \<le> length ops" by simp
    with le slots show ?thesis by (auto simp: copy_slots_result)
  next
    case False
    with slots show ?thesis by (auto simp: copy_slots.simps [of 0])
  qed
  from c nm cap le len show ?thesis by (auto simp: invariant_def)
qed

lemma copyFrom_succeeds:
  assumes "n \<le> cap" "n \<le> length ops" "0 < strlen nm" "0 < cap"
  shows "copyFrom (Some nm) n cap ops =
           Inr \<lparr>cname = Some nm, numberOfSupportedOperations = n, capacityForOperations = cap,
                operations = take n ops @ replicate (cap - n) None\<rparr>"
  using assms
  by (simp add: copyFrom_def copy_slots_result assertValidity_def)

lemma addOperation_never_returns: "addOperation c op \<noteq> Inr r"
  by (simp add: addOperation_def Calculator_default_fatal Let_def split: sum.splits)

lemma addOperation_state:
  assumes "invariant c" "addOperation c op = Inl (f, c')"
  shows "invariant c'"
proof (cases "numberOfSupportedOperations c = capacityForOperations c")
  case True
  with assms show ?thesis by (simp add: addOperation_def)
next
  case False
  with assms(1) have "Suc (numberOfSupportedOperations c) \<le> capacityForOperations c"
    by (simp add: invariant_def)
  with assms False show ?thesis
    by (auto simp: addOperation_def Calculator_default_fatal Let_def invariant_def
             split: sum.splits if_splits)
qed

text \<open>
  C6. The default constructor of \<open>Calculator\<close> always ends the process with
  "Invalid calculator name!": it sets the name to the empty string and then asserts
  that the name is not empty. So \<open>addOperation\<close>, whose return expression constructs
  a default calculator, never returns, whatever the calculator and the operation.
\<close>

theorem default_constructor_always_fatal:
  "Calculator_default = Inl (Fatal ''Invalid calculator name!'')
   \<and> (\<forall>c op. \<exists>f c'. addOperation c op = Inl (f, c'))"
proof -
  have "\<exists>f c'. addOperation c op = Inl (f, c')" for c op
    using addOperation_never_returns [of c op] by (cases "addOperation c op") auto
  then show ?thesis by (simp add: Calculator_default_fatal)
qed

text \<open>
  C5. What \<open>addOperation\<close> does. On a calculator at capacity it ends the process
  with "Capacity for operations exceeded!" and changes nothing. Below capacity, with
  an operation whose name and symbol are not empty, it stores a clone in the next
  slot, counts it, and then ends the process with "Invalid calculator name!" in the
  default constructor of its return expression: it does not return.
\<close>

theorem addOperation_below_capacity_is_fatal:
  "(numberOfSupportedOperations c = capacityForOperations c \<longrightarrow>
      addOperation c op = Inl (Fatal ''Capacity for operations exceeded!'', c))
   \<and> (numberOfSupportedOperations c < capacityForOperations c
        \<and> length (operations c) = capacityForOperations c
        \<and> name op \<noteq> [] \<and> symbol op \<noteq> [] \<longrightarrow>
      addOperation c op =
        Inl (Fatal ''Invalid calculator name!'',
             c\<lparr>operations := (operations c)[numberOfSupportedOperations c := Some op],
               numberOfSupportedOperations := Suc (numberOfSupportedOperations c)\<rparr>))"
  by (cases op)
    (simp add: addOperation_def Calculator_default_fatal createNew_def Operation_def
       assertValidity_op_def Let_def)

theorem addOperation_below_capacity_is_fatal_witness:
  "addOperation
     \<lparr>cname = Some ''calc'', numberOfSupportedOperations = 0, capacityForOperations = 16,
      operations = replicate 16 None\<rparr>
     \<lparr>kind = Add, name = ''Add'', symbol = ''+''\<rparr>
   = Inl (Fatal ''Invalid calculator name!'',
          \<lparr>cname = Some ''calc'', numberOfSupportedOperations = 1, capacityForOperations = 16,
           operations = (replicate 16 None)[0 := Some \<lparr>kind = Add, name = ''Add'', symbol = ''+''\<rparr>]\<rparr>)
   \<and> addOperation
     \<lparr>cname = Some ''calc'', numberOfSupportedOperations = 2, capacityForOperations = 2,
      operations = replicate 2 (Some \<lparr>kind = Add, name = ''Add'', symbol = ''+''\<rparr>)\<rparr>
     \<lparr>kind = Add, name = ''Add'', symbol = ''+''\<rparr>
   = Inl (Fatal ''Capacity for operations exceeded!'',
          \<lparr>cname = Some ''calc'', numberOfSupportedOperations = 2, capacityForOperations = 2,
           operations = replicate 2 (Some \<lparr>kind = Add, name = ''Add'', symbol = ''+''\<rparr>)\<rparr>)"
  using
    addOperation_below_capacity_is_fatal
      [of "\<lparr>cname = Some ''calc'', numberOfSupportedOperations = 0, capacityForOperations = 16,
            operations = replicate 16 None\<rparr>" "\<lparr>kind = Add, name = ''Add'', symbol = ''+''\<rparr>"]
    addOperation_below_capacity_is_fatal
      [of "\<lparr>cname = Some ''calc'', numberOfSupportedOperations = 2, capacityForOperations = 2,
            operations = replicate 2 (Some \<lparr>kind = Add, name = ''Add'', symbol = ''+''\<rparr>)\<rparr>"
          "\<lparr>kind = Add, name = ''Add'', symbol = ''+''\<rparr>"]
  by simp

text \<open>
  C7. The invariant of \<open>Calculator\<close>: a non-empty name, a positive capacity, and no
  more stored operations than the capacity. Every calculator that a constructor or the
  assignment returns satisfies it (the copy constructor and the assignment given that
  their source does), and the parameterized constructor gives capacity 16; called with
  a non-empty name and at most 16 operations it does return a calculator. The default
  constructor returns none. \<open>addOperation\<close> leaves the object in the invariant, also
  when the process ends in it. The other methods are \<open>const\<close>: they take the
  calculator and return none.
\<close>

theorem calculator_invariant:
  "(Calculator nm n ops = Inr c \<longrightarrow>
      invariant c \<and> capacityForOperations c = 16 \<and> numberOfSupportedOperations c = n \<and> n \<le> 16)
   \<and> (n \<le> 16 \<and> n \<le> length ops \<and> 0 < strlen str \<longrightarrow>
        (\<exists>c'. Calculator (Some str) n ops = Inr c' \<and> invariant c'
               \<and> capacityForOperations c' = 16))
   \<and> Calculator_default \<noteq> Inr c
   \<and> (invariant other \<and> Calculator_copy other = Inr c \<longrightarrow> invariant c)
   \<and> (invariant this \<and> invariant other \<and> Calculator_assign self this other = Inr c \<longrightarrow>
        invariant c)
   \<and> (invariant this \<and> addOperation this op = Inl (f, c) \<longrightarrow> invariant c)
   \<and> addOperation this op \<noteq> Inr (c, this')"
proof -
  have param: "invariant c \<and> capacityForOperations c = 16 \<and> numberOfSupportedOperations c = n
      \<and> n \<le> 16" if "Calculator nm n ops = Inr c"
    using copyFrom_Inr [of nm n MAX_OPERATORS ops c] that
    by (simp add: Calculator_def MAX_OPERATORS_def)
  have built: "\<exists>c'. Calculator (Some str) n ops = Inr c' \<and> invariant c'
      \<and> capacityForOperations c' = 16" if "n \<le> 16" "n \<le> length ops" "0 < strlen str"
    using copyFrom_succeeds [of n MAX_OPERATORS ops str] that
    by (simp add: Calculator_def MAX_OPERATORS_def invariant_def)
  have copy: "invariant c" if "Calculator_copy other = Inr c"
    using copyFrom_Inr that by (simp add: Calculator_copy_def)
  have assign: "invariant c" if "invariant this" "Calculator_assign self this other = Inr c"
    using that copy by (auto simp: Calculator_assign_def split: if_splits)
  show ?thesis
    using param built copy assign addOperation_state [of this op f c]
      addOperation_never_returns [of this op]
    by (simp add: Calculator_default_fatal)
qed

theorem calculator_invariant_witness:
  "\<exists>c. Calculator (Some ''calc'') 2
          (Some \<lparr>kind = Add, name = ''Add'', symbol = ''+''\<rparr>
           # Some \<lparr>kind = Subtract, name = ''Subtract'', symbol = ''-''\<rparr> # replicate 14 None)
        = Inr c
      \<and> invariant c \<and> capacityForOperations c = 16 \<and> numberOfSupportedOperations c = 2
      \<and> (\<exists>c'. Calculator_copy c = Inr c' \<and> invariant c')
      \<and> (\<exists>c'. Calculator_assign False c c = Inr c' \<and> invariant c')
      \<and> (\<exists>f c'. addOperation c \<lparr>kind = Add, name = ''Add'', symbol = ''+''\<rparr> = Inl (f, c')
             \<and> invariant c')"
proof -
  let ?add = "\<lparr>kind = Add, name = ''Add'', symbol = ''+''\<rparr>"
  let ?ops = "Some ?add # Some \<lparr>kind = Subtract, name = ''Subtract'', symbol = ''-''\<rparr>
      # replicate 14 None"
  let ?d = "\<lparr>cname = None, numberOfSupportedOperations = 0, capacityForOperations = 0,
      operations = []\<rparr>"
  have pre: "(2::nat) \<le> 16 \<and> 2 \<le> length ?ops \<and> 0 < strlen ''calc''" by simp
  from calculator_invariant
         [of "Some ''calc''" 2 ?ops ?d "''calc''" ?d ?d False ?add Undefined ?d,
          THEN conjunct2, THEN conjunct1, THEN mp, OF pre]
  obtain c where c: "Calculator (Some ''calc'') 2 ?ops = Inr c" by blast
  note inst = calculator_invariant [of "Some ''calc''" 2 ?ops c "''calc''" c c False ?add _ c]
  from inst [THEN conjunct1, THEN mp, OF c]
  have inv: "invariant c" and cap: "capacityForOperations c = 16"
    and n: "numberOfSupportedOperations c = 2"
    by simp_all
  from c have c_eq: "c = \<lparr>cname = Some ''calc'', numberOfSupportedOperations = 2,
      capacityForOperations = 16, operations = take 2 ?ops @ replicate 14 None\<rparr>"
    using copyFrom_succeeds [of 2 16 ?ops "''calc''"]
    by (simp add: Calculator_def MAX_OPERATORS_def)
  have copied: "Calculator_copy c = Inr c"
    unfolding c_eq Calculator_copy_def
    using copyFrom_succeeds [of 2 16 "take 2 ?ops @ replicate 14 None" "''calc''"]
    by simp
  obtain f c' where add: "addOperation c ?add = Inl (f, c')"
    using addOperation_never_returns [of c ?add] by (cases "addOperation c ?add") auto
  from calculator_invariant
         [of "Some ''calc''" 2 ?ops c' "''calc''" c c False ?add f c,
          THEN conjunct2, THEN conjunct2, THEN conjunct2, THEN conjunct2, THEN conjunct2,
          THEN conjunct1, THEN mp, OF conjI, OF inv add]
  have inv': "invariant c'" .
  from c inv cap n copied add inv' show ?thesis
    by (auto simp: Calculator_assign_def)
qed


subsection \<open>The calculator that the driver builds\<close>

text \<open>The calculator of \<open>main\<close> satisfies the invariant, and its stored slots were
  all written: the hypothesis \<open>initialised\<close> of the theorems below holds for it.\<close>

lemma create_from_result:
  "create_from i n ol ops = Inr ops' \<Longrightarrow>
   length ops' = length ops \<and> (i < n \<longrightarrow> n \<le> length ops)
   \<and> (\<forall>j. i \<le> j \<and> j < n \<longrightarrow> ops' ! j \<noteq> None)
   \<and> (\<forall>j. j < i \<longrightarrow> ops' ! j = ops ! j)"
proof (induction i n ol ops rule: create_from.induct)
  case (1 i n ol ops)
  show ?case
  proof (cases "i < n")
    case False
    with "1.prems" show ?thesis by (auto simp: create_from.simps [of i])
  next
    case True
    from "1.prems" True obtain p where
      len: "i < length ol" "i < length ops" and
      p: "createOperation (ol ! i) = Inr p" and
      rec: "create_from (Suc i) n ol (ops[i := Some p]) = Inr ops'"
      by (auto simp: create_from.simps [of i] split: if_splits sum.splits)
    from "1.IH" [OF True _ p rec] len have
      IH: "length ops' = length ops" "Suc i < n \<longrightarrow> n \<le> length ops"
        "\<forall>j. Suc i \<le> j \<and> j < n \<longrightarrow> ops' ! j \<noteq> None"
        "\<forall>j. j < Suc i \<longrightarrow> ops' ! j = (ops[i := Some p]) ! j"
      by simp_all
    from IH(4) len have at_i: "ops' ! i = Some p" by simp
    have "ops' ! j \<noteq> None" if "i \<le> j" "j < n" for j
      using that IH(3) at_i by (cases "j = i") auto
    moreover have "ops' ! j = ops ! j" if "j < i" for j
      using that IH(4) by simp
    moreover from True IH(2) len have "n \<le> length ops" by (cases "Suc i < n") auto
    ultimately show ?thesis using IH(1) by simp
  qed
qed

lemma copyFrom_operations:
  assumes "copyFrom nm n cap ops = Inr c" "n \<le> length ops"
  shows "operations c = take n ops @ replicate (cap - n) None"
proof -
  from copyFrom_Inr [OF assms(1)] have le: "n \<le> cap" by simp
  from assms(1) obtain slots where
    slots: "copy_slots 0 n ops (replicate cap None) = Inr slots" and
    valid: "assertValidity \<lparr>cname = nm, numberOfSupportedOperations = n,
              capacityForOperations = cap, operations = slots\<rparr> = Inr c"
    by (auto simp: copyFrom_def split: sum.splits)
  from valid have "operations c = slots"
    by (auto simp: assertValidity_def throwException_def split: if_splits)
  with slots le assms(2) show ?thesis by (simp add: copy_slots_result)
qed

lemma build_calculator_Inr:
  assumes "build_calculator nm n ol = Inr c"
  shows "invariant c \<and> initialised c \<and> capacityForOperations c = 16
         \<and> numberOfSupportedOperations c = n"
proof -
  from assms obtain ops where
    ops: "create_from 0 n ol (replicate MAX_OPERATORS None) = Inr ops" and
    c: "Calculator (Some nm) n ops = Inr c"
    by (auto simp: build_calculator_def split: sum.splits)
  from create_from_result [OF ops] have
    len: "length ops = 16" and filled: "\<forall>j. j < n \<longrightarrow> ops ! j \<noteq> None"
    by (simp_all add: MAX_OPERATORS_def)
  from c have cf: "copyFrom (Some nm) n 16 ops = Inr c"
    by (simp add: Calculator_def MAX_OPERATORS_def)
  from copyFrom_Inr [OF cf] have
    fields: "numberOfSupportedOperations c = n" "capacityForOperations c = 16"
      "length (operations c) = 16" "n \<le> 16" "invariant c"
    by simp_all
  from copyFrom_operations [OF cf] fields(4) len
  have "operations c = take n ops @ replicate (16 - n) None" by simp
  with fields len filled have "initialised c"
    by (auto simp: initialised_def list_all_length)
  with fields show ?thesis by simp
qed

lemma main_setup_calculator:
  assumes "main_setup w = Some (Inr (calc, w'))"
  shows "invariant calc \<and> initialised calc"
proof -
  from assms obtain nm n ol where "build_calculator nm n ol = Inr calc"
    by (auto simp: main_setup_def split: prod.splits option.splits sum.splits)
  from build_calculator_Inr [OF this] show ?thesis by simp
qed

subsection \<open>Evaluation of closed terms\<close>

text \<open>The equations that evaluate the model on concrete inputs. The recursive ones
  among them do not terminate on open terms.\<close>

lemmas operation_simps = AddOperation_def SubtractOperation_def MultiplyOperation_def
  DivideOperation_def PowerOperation_def RootOperation_def Operation_def assertValidity_op_def
  throwException_def createOperation_def getSymbol_def getName_def createNew_def

lemmas stream_simps = get_string_def get_double_def get_size_t_def get_short_def sentry_def
  good_def clear_def ignore_line_def getline_def isspace_def isdigit_def scan_integer_def
  digits_val_def SIZE_MAX_def newline_def endl_def print_def

lemmas calculator_simps = build_calculator_def create_from.simps Calculator_def copyFrom_def
  copy_slots.simps assertValidity_def MAX_OPERATORS_def calculate_def calculate_from.simps
  listSupportedOperations_def list_from.simps

lemmas ideal_simps = ideal_def scan_decimal_def cast_int_def truncate_def

subsection \<open>The table of operations\<close>

text \<open>The three operations that never end the process, and the tests of \<open>Divide\<close> and
  \<open>Power\<close>, for every interpretation of the arithmetic.\<close>

lemma execute_formulas:
  "execute A Add a b = Inr (d_add A a b)"
  "execute A Subtract a b = Inr (d_sub A a b)"
  "execute A Multiply a b = Inr (d_mul A a b)"
  "execute A Divide a b =
     (if d_eq A b (d_of_int A 0) then Inl (Fatal ''Cannot divide by zero!'')
      else Inr (d_div A a b))"
  "execute A Power a b =
     (if d_eq A a (d_of_int A 0) \<and> d_eq A b (d_of_int A 0)
      then Inl (Fatal ''Cannot raise 0 to the power of 0!'')
      else Inr (d_pow A a b))"
  by (simp_all add: throwException_def)

lemma truncate_eq_iff: "real_of_int (truncate b) = b \<longleftrightarrow> b \<in> \<int>"
proof
  assume "real_of_int (truncate b) = b"
  then have "b = real_of_int (truncate b)" by simp
  then show "b \<in> \<int>" by (metis Ints_of_int)
next
  assume "b \<in> \<int>"
  then obtain i where "b = of_int i" by (auto elim: Ints_cases)
  then show "real_of_int (truncate b) = b" by (simp add: truncate_def)
qed

text \<open>\<open>Root\<close> on the reals: where the cast of \<open>b\<close> is defined, or is not reached, the
  test \<open>(int)n2 != n2\<close> says that \<open>b\<close> is not an integer.\<close>

lemma execute_Root_ideal:
  assumes "cast_int b \<noteq> None \<or> \<not> a < 0 \<or> b < 0"
  shows "execute (ideal pw pr) Root a b =
     (if a < 0 \<and> b < 0 then Inl (Fatal ''Cannot take negative root of negative number!'')
      else if a < 0 \<and> b \<notin> \<int> then Inl (Fatal ''Cannot take fractional root of negative number'')
      else Inr (pw a (1 / b)))"
  using assms truncate_eq_iff [of b]
  by (auto simp: ideal_def throwException_def cast_int_def split: option.splits if_splits)

text \<open>
  C2. The table of the specification gives \<open>Root\<close> a fatal error when \<open>a < 0\<close> and
  \<open>b < 0\<close>, or \<open>a < 0\<close> and \<open>b\<close> is not an integer. The code tests the second
  condition by \<open>(int)n2 != n2\<close>. At \<open>a = -8\<close> and \<open>b = 2147483648\<close>, an integer that is
  not negative, neither condition of the table holds, and the code does not return
  \<open>pow(a, 1 / b)\<close>: the cast is out of the range of \<open>int\<close>.
\<close>

theorem Root_of_large_integer_is_undefined:
  "execute (ideal pw pr) Root (- 8) 2147483648 = Inl Undefined
   \<and> (2147483648::real) \<in> \<int> \<and> \<not> (2147483648::real) < 0"
  by (simp add: ideal_def cast_int_def truncate_def)

subsection \<open>Lookup, listing and the calculation loop\<close>

lemma stored_drop:
  assumes "initialised c" "i < numberOfSupportedOperations c"
  shows "i < length (operations c)"
    and "\<exists>p. operations c ! i = Some p \<and> drop i (stored c) = p # drop (Suc i) (stored c)"
proof -
  from assms show len: "i < length (operations c)" by (simp add: initialised_def)
  from assms len have "take (numberOfSupportedOperations c) (operations c) ! i \<noteq> None"
    by (simp add: initialised_def list_all_length)
  with assms obtain p where p: "operations c ! i = Some p" by auto
  from assms len have "i < length (stored c)" by (simp add: stored_def)
  then have "drop i (stored c) = stored c ! i # drop (Suc i) (stored c)"
    by (rule Cons_nth_drop_Suc [symmetric])
  moreover from assms len p have "stored c ! i = p" by (simp add: stored_def)
  ultimately show "\<exists>p. operations c ! i = Some p \<and> drop i (stored c) = p # drop (Suc i) (stored c)"
    using p by simp
qed

lemma calculate_from_find:
  "initialised c \<Longrightarrow>
   calculate_from A c n1 n2 op i =
     (case find (\<lambda>p. symbol p = op) (drop i (stored c)) of
        None \<Rightarrow> Inr (d_of_int A 0)
      | Some p \<Rightarrow> execute A (kind p) n1 n2)"
proof (induction A c n1 n2 op i rule: calculate_from.induct)
  case (1 A c n1 n2 op i)
  show ?case
  proof (cases "i < numberOfSupportedOperations c")
    case False
    then have "drop i (stored c) = []" by (simp add: stored_def)
    with False show ?thesis by (simp add: calculate_from.simps [of _ _ _ _ _ i])
  next
    case True
    from stored_drop [OF "1.prems" True] obtain p where
      len: "i < length (operations c)" and p: "operations c ! i = Some p"
      and d: "drop i (stored c) = p # drop (Suc i) (stored c)" by blast
    show ?thesis
    proof (cases "getSymbol p = op")
      case True
      with \<open>i < numberOfSupportedOperations c\<close> len p d show ?thesis
        by (simp add: calculate_from.simps [of _ _ _ _ _ i] getSymbol_def)
    next
      case False
      with "1.IH" [OF True len p False "1.prems"] True len p d show ?thesis
        by (simp add: calculate_from.simps [of _ _ _ _ _ i] getSymbol_def)
    qed
  qed
qed

lemma calculate_lookup:
  "initialised c \<Longrightarrow>
   calculate A c n1 n2 op =
     (case lookup c op of None \<Rightarrow> Inr (d_of_int A 0) | Some p \<Rightarrow> execute A (kind p) n1 n2)"
  using calculate_from_find [of c A n1 n2 op 0] by (simp add: calculate_def lookup_def)

lemma list_from_lines:
  "initialised c \<Longrightarrow>
   list_from c i w = Inr (w\<lparr>cout := cout w @ concat (map line_of (drop i (stored c)))\<rparr>)"
proof (induction c i w rule: list_from.induct)
  case (1 c i w)
  show ?case
  proof (cases "i < numberOfSupportedOperations c")
    case False
    then have "drop i (stored c) = []" by (simp add: stored_def)
    with False show ?thesis by (simp add: list_from.simps [of _ i])
  next
    case True
    from stored_drop [OF "1.prems" True] obtain p where
      len: "i < length (operations c)" and p: "operations c ! i = Some p"
      and d: "drop i (stored c) = p # drop (Suc i) (stored c)" by blast
    from "1.IH" [OF True len p "1.prems"] True len p d show ?thesis
      by (simp add: list_from.simps [of _ i] print_def line_of_def getSymbol_def getName_def
            endl_def newline_def)
  qed
qed


lemma get_string_old:
  "\<not> failbit (snd (get_string s old')) \<Longrightarrow> get_string s old = get_string s old'"
  by (auto simp: get_string_def sentry_def Let_def split: if_splits)

lemma get_double_old:
  "\<not> failbit (snd (get_double A s old')) \<Longrightarrow> get_double A s old = get_double A s old'"
  by (auto simp: get_double_def sentry_def Let_def split: if_splits prod.splits)

lemma reads_end_get_string:
  assumes "reads_end s = Some s'"
  shows "get_string s old = (''='', s')"
proof -
  from assms have eq: "get_string s [] = (''='', s')"
    by (auto simp: reads_end_def split: prod.splits if_splits)
  then have "\<not> failbit s'"
    by (auto simp: get_string_def sentry_def good_def Let_def split: if_splits)
  with eq get_string_old [of s "[]" old] show ?thesis by simp
qed

lemma loop_steps_ok:
  "initialised c \<Longrightarrow> reads_steps A s steps = Some s1 \<Longrightarrow> reads_end s1 = Some s2 \<Longrightarrow>
   run_steps A c r steps = Inr r' \<Longrightarrow>
   calculation_loop A c s (Some r) num2 op = Some (Inr (Some r', s2))"
proof (induction steps arbitrary: s r num2 op)
  case Nil
  then have "get_string s op = (''='', s2)" and "r' = r"
    by (simp_all add: reads_end_get_string)
  then show ?case
    by (subst calculation_loop.simps) simp
next
  case (Cons step steps)
  obtain t n where step: "step = (t, n)" by (cases step)
  from Cons.prems(2) step obtain sa sb where
    t: "get_string s [] = (t, sa)" "t \<noteq> ''=''" "\<not> failbit sa" and
    n: "get_double A sa None = (Some n, sb)" "\<not> failbit sb" and
    rest: "reads_steps A sb steps = Some s1"
    by (auto split: prod.splits if_splits)
  from t get_string_old [of s "[]" op] have t': "get_string s op = (t, sa)" by simp
  from n get_double_old [of A sa None num2] have n': "get_double A sa num2 = (Some n, sb)" by simp
  from Cons.prems(4) step obtain r1 where
    r1: "calculate A c r n t = Inr r1" and run: "run_steps A c r1 steps = Inr r'"
    by (auto simp: calculate_lookup [OF Cons.prems(1)] split: sum.splits)
  from Cons.IH [OF Cons.prems(1) rest Cons.prems(3) run]
  have "calculation_loop A c sb (Some r1) (Some n) t = Some (Inr (Some r', s2))" .
  with t' n' r1 t(2) show ?case
    by (simp add: calculation_loop.simps [of A c s])
qed

lemma loop_steps_fatal:
  "initialised c \<Longrightarrow> reads_steps A s steps = Some s1 \<Longrightarrow>
   run_steps A c r steps = Inl f \<Longrightarrow>
   \<exists>s'. calculation_loop A c s (Some r) num2 op = Some (Inl (f, s'))"
proof (induction steps arbitrary: s r num2 op)
  case Nil
  then show ?case by simp
next
  case (Cons step steps)
  obtain t n where step: "step = (t, n)" by (cases step)
  from Cons.prems(2) step obtain sa sb where
    t: "get_string s [] = (t, sa)" "t \<noteq> ''=''" "\<not> failbit sa" and
    n: "get_double A sa None = (Some n, sb)" "\<not> failbit sb" and
    rest: "reads_steps A sb steps = Some s1"
    by (auto split: prod.splits if_splits)
  from t get_string_old [of s "[]" op] have t': "get_string s op = (t, sa)" by simp
  from n get_double_old [of A sa None num2] have n': "get_double A sa num2 = (Some n, sb)" by simp
  show ?case
  proof (cases "calculate A c r n t")
    case (Inl f')
    with Cons.prems(3) step have "f' = f"
      by (simp add: calculate_lookup [OF Cons.prems(1)])
    with Inl t' n' t(2) show ?thesis
      by (simp add: calculation_loop.simps [of A c s])
  next
    case (Inr r1)
    with Cons.prems(3) step have run: "run_steps A c r1 steps = Inl f"
      by (simp add: calculate_lookup [OF Cons.prems(1)])
    from Cons.IH [OF Cons.prems(1) rest run]
    obtain s' where "calculation_loop A c sb (Some r1) (Some n) t = Some (Inl (f, s'))"
      by blast
    with Inr t' n' t(2) show ?thesis
      by (simp add: calculation_loop.simps [of A c s])
  qed
qed


lemma startCalculation_ok:
  assumes "initialised c" "reads_expression A (cin w) n0 steps = Some s1"
    "reads_end s1 = Some s2" "run_steps A c n0 steps = Inr r"
  shows "startCalculation A c w =
     Some (Inr (w\<lparr>cin := s2,
                   numberOfSuccessfulCalculations :=
                     d_add A (numberOfSuccessfulCalculations w) (d_of_int A 1),
                   cout := cout w @ d_print A r @ ''\<newline>''\<rparr>))"
proof -
  from assms(2) obtain s0 where
    first: "get_double A (cin w) None = (Some n0, s0)" and rest: "reads_steps A s0 steps = Some s1"
    by (auto simp: reads_expression_def split: prod.splits if_splits)
  from loop_steps_ok [OF assms(1) rest assms(3) assms(4)]
  have "calculation_loop A c s0 (Some n0) None [] = Some (Inr (Some r, s2))" .
  with first show ?thesis
    by (simp add: startCalculation_def endl_def newline_def)
qed

lemma startCalculation_fatal:
  assumes "initialised c" "reads_expression A (cin w) n0 steps = Some s1"
    "run_steps A c n0 steps = Inl f"
  shows "\<exists>s'. startCalculation A c w = Some (Inl (f, w\<lparr>cin := s'\<rparr>))"
proof -
  from assms(2) obtain s0 where
    first: "get_double A (cin w) None = (Some n0, s0)" and rest: "reads_steps A s0 steps = Some s1"
    by (auto simp: reads_expression_def split: prod.splits if_splits)
  from loop_steps_fatal [OF assms(1) rest assms(3)]
  obtain s' where "calculation_loop A c s0 (Some n0) None [] = Some (Inl (f, s'))" by blast
  with first show ?thesis
    by (auto simp: startCalculation_def)
qed

lemma startCalculation_Inl:
  "startCalculation A c w = Some (Inl (f, w')) \<Longrightarrow>
   cout w' = cout w \<and> numberOfSuccessfulCalculations w' = numberOfSuccessfulCalculations w"
  by (auto simp: startCalculation_def split: prod.splits option.splits sum.splits)


subsection \<open>The claims on lookup, listing and evaluation\<close>

text \<open>
  C9. \<open>listSupportedOperations\<close> appends to \<open>cout\<close> one line "symbol - name" for
  each stored operation, in the order of insertion, and changes nothing else: the
  calculator is not returned, and the world differs in \<open>cout\<close> only. The calculator
  that \<open>main\<close> builds from the symbols \<open>+\<close>, \<open>-\<close>, \<open>*\<close> prints the three lines
  "+ - Add", "- - Subtract", "* - Multiply".
\<close>

theorem listSupportedOperations_lines:
  "(initialised c \<longrightarrow>
      listSupportedOperations c w = Inr (w\<lparr>cout := cout w @ concat (map line_of (stored c))\<rparr>))
   \<and> (\<exists>c3. build_calculator ''calc'' 3 (''+'' # ''-'' # ''*'' # replicate 13 []) = Inr c3
          \<and> listSupportedOperations c3 w
              = Inr (w\<lparr>cout := cout w
                       @ ''+ - Add\<newline>- - Subtract\<newline>* - Multiply\<newline>''\<rparr>))"
proof -
  have "listSupportedOperations c w
          = Inr (w\<lparr>cout := cout w @ concat (map line_of (stored c))\<rparr>)" if "initialised c"
    using list_from_lines [OF that, of 0 w] by (simp add: listSupportedOperations_def)
  moreover have "\<exists>c3. build_calculator ''calc'' 3 (''+'' # ''-'' # ''*'' # replicate 13 []) = Inr c3
          \<and> listSupportedOperations c3 w
              = Inr (w\<lparr>cout := cout w
                       @ ''+ - Add\<newline>- - Subtract\<newline>* - Multiply\<newline>''\<rparr>)"
    by (simp add: operation_simps stream_simps calculator_simps)
  ultimately show ?thesis by blast
qed

theorem listSupportedOperations_lines_witness:
  "listSupportedOperations
     \<lparr>cname = Some ''c'', numberOfSupportedOperations = 2, capacityForOperations = 16,
      operations = Some \<lparr>kind = Root, name = ''Root'', symbol = ''V''\<rparr>
        # Some \<lparr>kind = Divide, name = ''Divide'', symbol = ''/''\<rparr> # replicate 14 None\<rparr>
     \<lparr>cin = \<lparr>buf = ''4'', failbit = False, eofbit = False\<rparr>, cout = ''> '',
      numberOfSuccessfulCalculations = (0::real)\<rparr>
   = Inr \<lparr>cin = \<lparr>buf = ''4'', failbit = False, eofbit = False\<rparr>,
          cout = ''> V - Root\<newline>/ - Divide\<newline>'',
          numberOfSuccessfulCalculations = 0\<rparr>"
proof -
  let ?c = "\<lparr>cname = Some ''c'', numberOfSupportedOperations = 2, capacityForOperations = 16,
      operations = Some \<lparr>kind = Root, name = ''Root'', symbol = ''V''\<rparr>
        # Some \<lparr>kind = Divide, name = ''Divide'', symbol = ''/''\<rparr> # replicate 14 None\<rparr>"
  let ?w = "\<lparr>cin = \<lparr>buf = ''4'', failbit = False, eofbit = False\<rparr>, cout = ''> '',
      numberOfSuccessfulCalculations = (0::real)\<rparr>"
  have pre: "initialised ?c" by (simp add: initialised_def)
  from listSupportedOperations_lines [where c = ?c and w = ?w, THEN conjunct1, THEN mp, OF pre]
  show ?thesis by (simp add: stored_def line_of_def)
qed

text \<open>
  C3. \<open>calculate\<close> scans the stored operations in the order of insertion and runs
  \<open>execute\<close> of the first whose symbol equals the token; when none does, it does not
  fail and returns zero. So a calculator built from the symbol \<open>+\<close> alone, given the
  input \<open>5 * 2 =\<close>, completes: it prints the value zero and counts one success.
\<close>

theorem calculate_first_match_or_zero:
  "(initialised c \<longrightarrow>
      calculate A c n1 n2 op =
        (case find (\<lambda>p. symbol p = op) (stored c) of
           None \<Rightarrow> Inr (d_of_int A 0)
         | Some p \<Rightarrow> execute A (kind p) n1 n2))
   \<and> (\<exists>c1. build_calculator ''calc'' 1 (''+'' # replicate 15 []) = Inr c1
          \<and> startCalculation (ideal pw pr) c1
               \<lparr>cin = \<lparr>buf = ''5 * 2 ='', failbit = False, eofbit = False\<rparr>, cout = out,
                numberOfSuccessfulCalculations = k\<rparr>
              = Some (Inr \<lparr>cin = \<lparr>buf = [], failbit = False, eofbit = True\<rparr>,
                          cout = out @ pr 0 @ ''\<newline>'',
                          numberOfSuccessfulCalculations = k + 1\<rparr>))"
proof -
  have "calculate A c n1 n2 op =
        (case find (\<lambda>p. symbol p = op) (stored c) of
           None \<Rightarrow> Inr (d_of_int A 0)
         | Some p \<Rightarrow> execute A (kind p) n1 n2)" if "initialised c"
    using calculate_lookup [OF that] by (simp add: lookup_def)
  moreover have "\<exists>c1. build_calculator ''calc'' 1 (''+'' # replicate 15 []) = Inr c1
          \<and> startCalculation (ideal pw pr) c1
               \<lparr>cin = \<lparr>buf = ''5 * 2 ='', failbit = False, eofbit = False\<rparr>, cout = out,
                numberOfSuccessfulCalculations = k\<rparr>
              = Some (Inr \<lparr>cin = \<lparr>buf = [], failbit = False, eofbit = True\<rparr>,
                          cout = out @ pr 0 @ ''\<newline>'',
                          numberOfSuccessfulCalculations = k + 1\<rparr>)"
    by (simp add: operation_simps stream_simps calculator_simps ideal_simps startCalculation_def
          calculation_loop.simps)
  ultimately show ?thesis by blast
qed

theorem calculate_first_match_or_zero_witness:
  "calculate (ideal (powr) (\<lambda>x. []))
     \<lparr>cname = Some ''c'', numberOfSupportedOperations = 2, capacityForOperations = 16,
      operations = Some \<lparr>kind = Subtract, name = ''first'', symbol = ''#''\<rparr>
        # Some \<lparr>kind = Add, name = ''second'', symbol = ''#''\<rparr> # replicate 14 None\<rparr>
     5 2 ''#'' = Inr 3
   \<and> calculate (ideal (powr) (\<lambda>x. []))
     \<lparr>cname = Some ''c'', numberOfSupportedOperations = 2, capacityForOperations = 16,
      operations = Some \<lparr>kind = Subtract, name = ''first'', symbol = ''#''\<rparr>
        # Some \<lparr>kind = Add, name = ''second'', symbol = ''#''\<rparr> # replicate 14 None\<rparr>
     5 2 ''+'' = Inr 0"
proof -
  let ?c = "\<lparr>cname = Some ''c'', numberOfSupportedOperations = 2, capacityForOperations = 16,
      operations = Some \<lparr>kind = Subtract, name = ''first'', symbol = ''#''\<rparr>
        # Some \<lparr>kind = Add, name = ''second'', symbol = ''#''\<rparr> # replicate 14 None\<rparr>"
  have pre: "initialised ?c" by (simp add: initialised_def)
  note first_match =
    calculate_first_match_or_zero
      [where c = ?c and A = "ideal (powr) (\<lambda>x. [])" and ?n1.0 = 5 and ?n2.0 = 2,
       THEN conjunct1, THEN mp, OF pre]
  from first_match [of "''#''"] first_match [of "''+''"] show ?thesis
    by (simp add: stored_def ideal_def)
qed

text \<open>
  C1. \<open>startCalculation\<close> is a left-to-right fold. When the stream presents a first
  operand \<open>n0\<close>, then the operator tokens and operands of \<open>steps\<close>, then the token
  \<open>=\<close>, and the evaluation of the specification from \<open>n0\<close> over \<open>steps\<close> gives \<open>r\<close>,
  the method returns having printed \<open>r\<close> and a newline and added one to the counter
  of successes, with the stream after the token \<open>=\<close>. On \<open>10 + 5 - 3 =\<close>, with the
  calculator that \<open>main\<close> builds from \<open>+\<close> and \<open>-\<close>, it prints 12 and the counter
  grows by one.
\<close>

theorem startCalculation_left_fold:
  "(initialised c \<and> reads_expression A (cin w) n0 steps = Some s1 \<and> reads_end s1 = Some s2
      \<and> run_steps A c n0 steps = Inr r \<longrightarrow>
      startCalculation A c w =
        Some (Inr (w\<lparr>cin := s2,
                     numberOfSuccessfulCalculations :=
                       d_add A (numberOfSuccessfulCalculations w) (d_of_int A 1),
                     cout := cout w @ d_print A r @ ''\<newline>''\<rparr>)))
   \<and> (\<exists>c2. build_calculator ''calc'' 2 (''+'' # ''-'' # replicate 14 []) = Inr c2
          \<and> startCalculation (ideal pw pr) c2
               \<lparr>cin = \<lparr>buf = ''10 + 5 - 3 ='', failbit = False, eofbit = False\<rparr>, cout = out,
                numberOfSuccessfulCalculations = k\<rparr>
              = Some (Inr \<lparr>cin = \<lparr>buf = [], failbit = False, eofbit = True\<rparr>,
                          cout = out @ pr 12 @ ''\<newline>'',
                          numberOfSuccessfulCalculations = k + 1\<rparr>))"
proof -
  have "\<exists>c2. build_calculator ''calc'' 2 (''+'' # ''-'' # replicate 14 []) = Inr c2
          \<and> startCalculation (ideal pw pr) c2
               \<lparr>cin = \<lparr>buf = ''10 + 5 - 3 ='', failbit = False, eofbit = False\<rparr>, cout = out,
                numberOfSuccessfulCalculations = k\<rparr>
              = Some (Inr \<lparr>cin = \<lparr>buf = [], failbit = False, eofbit = True\<rparr>,
                          cout = out @ pr 12 @ ''\<newline>'',
                          numberOfSuccessfulCalculations = k + 1\<rparr>)"
    by (simp add: operation_simps stream_simps calculator_simps ideal_simps startCalculation_def
          calculation_loop.simps)
  with startCalculation_ok [of c A w n0 steps s1 s2 r] show ?thesis by blast
qed

theorem startCalculation_left_fold_witness:
  "startCalculation (ideal (powr) (\<lambda>x. ''six''))
     \<lparr>cname = Some ''c'', numberOfSupportedOperations = 1, capacityForOperations = 16,
      operations = Some \<lparr>kind = Multiply, name = ''Multiply'', symbol = ''*''\<rparr>
        # replicate 15 None\<rparr>
     \<lparr>cin = \<lparr>buf = ''2 * 3 =\<newline>4'', failbit = False, eofbit = False\<rparr>, cout = [],
      numberOfSuccessfulCalculations = 0\<rparr>
   = Some (Inr \<lparr>cin = \<lparr>buf = ''\<newline>4'', failbit = False, eofbit = False\<rparr>,
               cout = ''six\<newline>'', numberOfSuccessfulCalculations = 1\<rparr>)"
proof -
  let ?A = "ideal (powr) (\<lambda>x. ''six'')"
  let ?c = "\<lparr>cname = Some ''c'', numberOfSupportedOperations = 1, capacityForOperations = 16,
      operations = Some \<lparr>kind = Multiply, name = ''Multiply'', symbol = ''*''\<rparr>
        # replicate 15 None\<rparr>"
  let ?w = "\<lparr>cin = \<lparr>buf = ''2 * 3 =\<newline>4'', failbit = False, eofbit = False\<rparr>, cout = [],
      numberOfSuccessfulCalculations = 0::real\<rparr>"
  let ?s1 = "\<lparr>buf = '' =\<newline>4'', failbit = False, eofbit = False\<rparr>"
  let ?s2 = "\<lparr>buf = ''\<newline>4'', failbit = False, eofbit = False\<rparr>"
  have pre: "initialised ?c \<and> reads_expression ?A (cin ?w) 2 [(''*'', 3)] = Some ?s1
      \<and> reads_end ?s1 = Some ?s2 \<and> run_steps ?A ?c 2 [(''*'', 3)] = Inr 6"
    by (simp add: initialised_def reads_expression_def reads_end_def lookup_def stored_def
          stream_simps ideal_simps)
  from startCalculation_left_fold
         [where c = ?c and A = ?A and w = ?w and ?n0.0 = 2 and steps = "[(''*'', 3)]"
            and ?s1.0 = ?s1 and ?s2.0 = ?s2 and r = 6,
          THEN conjunct1, THEN mp, OF pre]
  show ?thesis by (simp add: ideal_def)
qed

text \<open>
  C4. When a step raises a fatal error, \<open>startCalculation\<close> has none of its
  completion effects: whenever it ends with a fatal error, nothing was printed and the
  counter of successes is unchanged; and it does end with the fatal error of the
  failing step when the stream presents an expression whose evaluation raises one. On
  \<open>8 / 0 =\<close>, with the calculator that \<open>main\<close> builds from \<open>/\<close>, the process ends
  with "Cannot divide by zero!", nothing printed and the counter unchanged.
\<close>

theorem fatal_step_has_no_completion_effects:
  "(startCalculation A c w = Some (Inl (Fatal msg, w')) \<longrightarrow>
      cout w' = cout w
      \<and> numberOfSuccessfulCalculations w' = numberOfSuccessfulCalculations w)
   \<and> (initialised c \<and> reads_expression A (cin w) n0 steps = Some s1
        \<and> run_steps A c n0 steps = Inl (Fatal msg) \<longrightarrow>
        (\<exists>s'. startCalculation A c w = Some (Inl (Fatal msg, w\<lparr>cin := s'\<rparr>))))
   \<and> (\<exists>c1. build_calculator ''calc'' 1 (''/'' # replicate 15 []) = Inr c1
          \<and> startCalculation (ideal pw pr) c1
               \<lparr>cin = \<lparr>buf = ''8 / 0 ='', failbit = False, eofbit = False\<rparr>, cout = out,
                numberOfSuccessfulCalculations = k\<rparr>
              = Some (Inl (Fatal ''Cannot divide by zero!'',
                           \<lparr>cin = \<lparr>buf = '' ='', failbit = False, eofbit = False\<rparr>,
                            cout = out, numberOfSuccessfulCalculations = k\<rparr>)))"
proof -
  have "\<exists>c1. build_calculator ''calc'' 1 (''/'' # replicate 15 []) = Inr c1
          \<and> startCalculation (ideal pw pr) c1
               \<lparr>cin = \<lparr>buf = ''8 / 0 ='', failbit = False, eofbit = False\<rparr>, cout = out,
                numberOfSuccessfulCalculations = k\<rparr>
              = Some (Inl (Fatal ''Cannot divide by zero!'',
                           \<lparr>cin = \<lparr>buf = '' ='', failbit = False, eofbit = False\<rparr>,
                            cout = out, numberOfSuccessfulCalculations = k\<rparr>))"
    by (simp add: operation_simps stream_simps calculator_simps ideal_simps startCalculation_def
          calculation_loop.simps)
  with startCalculation_Inl [of A c w "Fatal msg" w']
    startCalculation_fatal [of c A w n0 steps s1 "Fatal msg"]
  show ?thesis by blast
qed

theorem fatal_step_has_no_completion_effects_witness:
  "\<exists>w'. startCalculation (ideal (powr) (\<lambda>x. ''?''))
        \<lparr>cname = Some ''c'', numberOfSupportedOperations = 2, capacityForOperations = 16,
         operations = Some \<lparr>kind = Add, name = ''Add'', symbol = ''+''\<rparr>
           # Some \<lparr>kind = Power, name = ''Power'', symbol = ''**''\<rparr> # replicate 14 None\<rparr>
        \<lparr>cin = \<lparr>buf = ''-1 + 1 ** 0 + 7 ='', failbit = False, eofbit = False\<rparr>,
         cout = ''menu'', numberOfSuccessfulCalculations = 3\<rparr>
      = Some (Inl (Fatal ''Cannot raise 0 to the power of 0!'', w'))
      \<and> cout w' = ''menu'' \<and> numberOfSuccessfulCalculations w' = 3"
proof -
  let ?A = "ideal (powr) (\<lambda>x. ''?'')"
  let ?c = "\<lparr>cname = Some ''c'', numberOfSupportedOperations = 2, capacityForOperations = 16,
         operations = Some \<lparr>kind = Add, name = ''Add'', symbol = ''+''\<rparr>
           # Some \<lparr>kind = Power, name = ''Power'', symbol = ''**''\<rparr> # replicate 14 None\<rparr>"
  let ?w = "\<lparr>cin = \<lparr>buf = ''-1 + 1 ** 0 + 7 ='', failbit = False, eofbit = False\<rparr>,
         cout = ''menu'', numberOfSuccessfulCalculations = 3::real\<rparr>"
  let ?f = "Fatal ''Cannot raise 0 to the power of 0!''"
  let ?steps = "[(''+'', 1), (''**'', 0)]"
  let ?s1 = "\<lparr>buf = '' + 7 ='', failbit = False, eofbit = False\<rparr>"
  have pre: "initialised ?c \<and> reads_expression ?A (cin ?w) (- 1) ?steps = Some ?s1
      \<and> run_steps ?A ?c (- 1) ?steps = Inl ?f"
    by (simp add: initialised_def reads_expression_def lookup_def stored_def
          stream_simps ideal_simps throwException_def)
  from fatal_step_has_no_completion_effects
         [where c = ?c and A = ?A and w = ?w and ?n0.0 = "- 1" and steps = ?steps
            and ?s1.0 = ?s1 and msg = "''Cannot raise 0 to the power of 0!''",
          THEN conjunct2, THEN conjunct1, THEN mp, OF pre]
  obtain s' where run: "startCalculation ?A ?c ?w = Some (Inl (?f, ?w\<lparr>cin := s'\<rparr>))"
    by blast
  from fatal_step_has_no_completion_effects
         [where c = ?c and A = ?A and w = ?w and msg = "''Cannot raise 0 to the power of 0!''"
            and w' = "?w\<lparr>cin := s'\<rparr>",
          THEN conjunct1, THEN mp, OF run]
  have "cout (?w\<lparr>cin := s'\<rparr>) = ''menu''
      \<and> numberOfSuccessfulCalculations (?w\<lparr>cin := s'\<rparr>) = 3"
    by simp
  with run show ?thesis by blast
qed


subsection \<open>The loops of the driver\<close>

lemma get_size_t_stream:
  "snd (get_size_t s old) = snd (get_size_t s old')"
  by (auto simp: get_size_t_def sentry_def Let_def split: prod.splits if_splits)

lemma get_size_t_old:
  "\<not> failbit (snd (get_size_t s old')) \<Longrightarrow> get_size_t s old = get_size_t s old'"
  by (auto simp: get_size_t_def sentry_def Let_def split: prod.splits if_splits)

lemma count_loop_total:
  "rejected_attempts (cin w) m = Some (s', out) \<Longrightarrow> accepted_count s' = Some (k, s'') \<Longrightarrow>
   read_numberOfOperations w n = Some (Inr (k, w\<lparr>cin := s'', cout := cout w @ out @ prompt\<rparr>))"
proof (induction m arbitrary: w n out)
  case 0
  then have s': "s' = cin w" and out: "out = []" by simp_all
  from "0.prems"(2) s' have r: "get_size_t (cin w) None = (Some k, s'')" and ok: "\<not> failbit s''"
    and le: "k \<le> 16"
    by (auto simp: accepted_count_def split: prod.splits option.splits if_splits)
  from r ok get_size_t_old [of "cin w" None n] have "get_size_t (cin w) n = (Some k, s'')" by simp
  with ok le out show ?case
    by (subst read_numberOfOperations.simps)
      (simp add: MAX_OPERATORS_def print_def prompt_def)
next
  case (Suc m)
  obtain n1 s1 where r: "get_size_t (cin w) n = (n1, s1)" by (cases "get_size_t (cin w) n")
  obtain n0 where r0: "get_size_t (cin w) None = (n0, s1)"
    using r get_size_t_stream [of "cin w" None n] by (cases "get_size_t (cin w) None") simp
  show ?case
  proof (cases "failbit s1")
    case True
    with Suc.prems(1) r0 obtain out' where
      rest: "rejected_attempts (ignore_line (clear s1)) m = Some (s', out')" and
      out: "out = prompt @ ''Couldn'' @ CHR 0x27 # ''t convert to number!\<newline>'' @ out'"
      by auto
    let ?w = "(print (''Couldn'' @ CHR 0x27 # ''t convert to number!'' @ endl)
                ((print ''Enter number of operations: '' w)\<lparr>cin := s1\<rparr>))
              \<lparr>cin := ignore_line (clear s1)\<rparr>"
    from rest have "rejected_attempts (cin ?w) m = Some (s', out')" by simp
    from Suc.IH [OF this Suc.prems(2), of n1]
    have "read_numberOfOperations ?w n1
            = Some (Inr (k, ?w\<lparr>cin := s'', cout := cout ?w @ out' @ prompt\<rparr>))" .
    with True r out show ?thesis
      by (subst read_numberOfOperations.simps)
        (simp add: print_def prompt_def endl_def newline_def)
  next
    case False
    with r r0 get_size_t_old [of "cin w" None n] have same: "n1 = n0" by simp
    from False Suc.prems(1) r0 obtain k' out' where
      k': "n0 = Some k'" "16 < k'" and
      rest: "rejected_attempts (ignore_line (clear s1)) m = Some (s', out')" and
      out: "out = prompt @ ''Exceeded operator capacity of 16!\<newline>'' @ out'"
      by (auto split: option.splits if_splits)
    let ?w = "(print (''Exceeded operator capacity of 16!'' @ endl)
                ((print ''Enter number of operations: '' w)\<lparr>cin := s1\<rparr>))
              \<lparr>cin := ignore_line (clear s1)\<rparr>"
    from rest have "rejected_attempts (cin ?w) m = Some (s', out')" by simp
    from Suc.IH [OF this Suc.prems(2), of n1]
    have "read_numberOfOperations ?w n1
            = Some (Inr (k, ?w\<lparr>cin := s'', cout := cout ?w @ out' @ prompt\<rparr>))" .
    with False r same k' out show ?thesis
      by (subst read_numberOfOperations.simps)
        (simp add: print_def prompt_def endl_def newline_def MAX_OPERATORS_def)
  qed
qed


lemma count_loop_result:
  assumes "read_numberOfOperations w n = Some y"
  shows "\<forall>k w'. y = Inr (k, w') \<longrightarrow> k \<le> MAX_OPERATORS"
proof (rule read_numberOfOperations.raw_induct
         [where P = "\<lambda>w n y. \<forall>k w'. y = Inr (k, w') \<longrightarrow> k \<le> MAX_OPERATORS", OF _ assms])
  fix loop :: "'a world \<Rightarrow> nat option \<Rightarrow> ((fault \<times> 'a world) + (nat \<times> 'a world)) option"
  fix w n y
  assume IH: "\<And>w n y. loop w n = Some y \<Longrightarrow> \<forall>k w'. y = Inr (k, w') \<longrightarrow> k \<le> MAX_OPERATORS"
  assume body: "(case get_size_t (cin w) n of
        (n, s1) \<Rightarrow>
          (let w1 = (print ''Enter number of operations: '' w)\<lparr>cin := s1\<rparr>
           in if failbit s1
              then loop
                     ((print (''Couldn'' @ CHR 0x27 # ''t convert to number!'' @ endl) w1)
                        \<lparr>cin := ignore_line (clear s1)\<rparr>) n
              else
                (case n of
                   None \<Rightarrow> Some (Inl (Undefined, w1))
                 | Some k \<Rightarrow>
                     if k > MAX_OPERATORS
                     then loop
                            ((print (''Exceeded operator capacity of 16!'' @ endl) w1)
                               \<lparr>cin := ignore_line (clear s1)\<rparr>) n
                     else Some (Inr (k, w1))))) = Some y"
  obtain n1 s1 where r: "get_size_t (cin w) n = (n1, s1)" by (cases "get_size_t (cin w) n")
  show "\<forall>k w'. y = Inr (k, w') \<longrightarrow> k \<le> MAX_OPERATORS"
  proof (cases "failbit s1")
    case True
    with body r IH show ?thesis by (simp add: Let_def)
  next
    case False
    show ?thesis
    proof (cases n1)
      case None
      with body r False show ?thesis by (auto simp: Let_def)
    next
      case (Some k)
      with body r False IH show ?thesis
        by (cases "k > MAX_OPERATORS") (auto simp: Let_def)
    qed
  qed
qed

lemma read_batch_valid:
  "read_batch i n s sy ol out = Inr (True, s1, ol', out') \<Longrightarrow>
   s1 = after_reads (n - i) s sy \<and> out' = out"
proof (induction i n s sy ol out rule: read_batch.induct)
  case (1 i n s sy ol out)
  show ?case
  proof (cases "i < n")
    case False
    with "1.prems" show ?thesis by (simp add: read_batch.simps [of i])
  next
    case True
    obtain t sa where t: "get_string s sy = (t, sa)" by (cases "get_string s sy")
    from True have suc: "n - i = Suc (n - Suc i)" by simp
    from "1.prems" True t have
      ok: "t = ''+'' \<or> t = ''-'' \<or> t = ''*'' \<or> t = ''/'' \<or> t = ''**'' \<or> t = ''V''"
      and len: "i < length ol"
      and rec: "read_batch (Suc i) n sa t (ol[i := t]) out = Inr (True, s1, ol', out')"
      by (auto simp: read_batch.simps [of i] split: if_splits)
    from "1.IH" [OF True t [symmetric] ok len rec] t show ?thesis
      by (simp add: suc)
  qed
qed

lemma buf_ignore_line_clear:
  "buf (ignore_line (clear s)) = tl (dropWhile (\<lambda>c. c \<noteq> newline) (buf s))
   \<and> \<not> failbit (ignore_line (clear s))"
  by (cases "dropWhile (\<lambda>c. c \<noteq> newline) (buf s)")
    (simp_all add: ignore_line_def clear_def good_def del: dropWhile_eq_Nil_conv)

lemma read_operationList_valid:
  assumes "read_batch 0 n (cin w) [] ol [] = Inr (True, s1, ol', out)"
  shows "read_operationList w n ol
           = Some (Inr (ol', w\<lparr>cin := ignore_line (clear (after_reads n (cin w) []))\<rparr>))"
proof -
  from read_batch_valid [OF assms] have "s1 = after_reads n (cin w) []" "out = []" by simp_all
  with assms show ?thesis
    by (subst read_operationList.simps) (simp add: print_def)
qed

lemma read_operationList_exit:
  assumes "read_operationList w n ol = Some y"
  shows "\<forall>ol' w'. y = Inr (ol', w') \<longrightarrow>
           (\<exists>s0 ol0. read_batch 0 n s0 [] ol0 [] = Inr (True, after_reads n s0 [], ol', [])
                     \<and> cin w' = ignore_line (clear (after_reads n s0 [])))"
proof (rule read_operationList.raw_induct
         [where P = "\<lambda>w n ol y. \<forall>ol' w'. y = Inr (ol', w') \<longrightarrow>
           (\<exists>s0 ol0. read_batch 0 n s0 [] ol0 [] = Inr (True, after_reads n s0 [], ol', [])
                     \<and> cin w' = ignore_line (clear (after_reads n s0 [])))", OF _ assms])
  fix loop :: "'a world \<Rightarrow> nat \<Rightarrow> string list
      \<Rightarrow> ((fault \<times> 'a world) + (string list \<times> 'a world)) option"
  fix w n ol y
  assume IH: "\<And>w n ol y. loop w n ol = Some y \<Longrightarrow>
      \<forall>ol' w'. y = Inr (ol', w') \<longrightarrow>
           (\<exists>s0 ol0. read_batch 0 n s0 [] ol0 [] = Inr (True, after_reads n s0 [], ol', [])
                     \<and> cin w' = ignore_line (clear (after_reads n s0 [])))"
  assume body: "(case read_batch 0 n (cin w) [] ol [] of
        Inl f \<Rightarrow> Some (Inl (f, w))
      | Inr (valid, s1, operationList', out) \<Rightarrow>
          (let w1 = (print out w)\<lparr>cin := ignore_line (clear s1)\<rparr>
           in if valid then Some (Inr (operationList', w1))
              else loop w1 n operationList')) = Some y"
  show "\<forall>ol' w'. y = Inr (ol', w') \<longrightarrow>
           (\<exists>s0 ol0. read_batch 0 n s0 [] ol0 [] = Inr (True, after_reads n s0 [], ol', [])
                     \<and> cin w' = ignore_line (clear (after_reads n s0 [])))"
  proof (cases "read_batch 0 n (cin w) [] ol []")
    case (Inl f)
    with body show ?thesis by auto
  next
    case (Inr r)
    then obtain valid s1 ol1 out where
      r: "read_batch 0 n (cin w) [] ol [] = Inr (valid, s1, ol1, out)"
      by (cases r) auto
    show ?thesis
    proof (cases valid)
      case True
      with r read_batch_valid [of 0 n "cin w" "[]" ol "[]" s1 ol1 out]
      have "read_batch 0 n (cin w) [] ol [] = Inr (True, after_reads n (cin w) [], ol1, [])"
        and "s1 = after_reads n (cin w) []"
        by simp_all
      with body r True show ?thesis by (auto simp: Let_def)
    next
      case False
      with body r IH show ?thesis by (simp add: Let_def)
    qed
  qed
qed

text \<open>At the end of the input the loop never ends: every read fails, and clearing and
  discarding leave the stream where it is.\<close>

lemma get_size_t_at_end:
  "buf s = [] \<Longrightarrow> failbit (snd (get_size_t s n)) \<and> buf (snd (get_size_t s n)) = []"
  by (simp add: get_size_t_def sentry_def)

lemma ignore_line_at_end: "buf s = [] \<Longrightarrow> buf (ignore_line (clear s)) = []"
  by (simp add: ignore_line_def clear_def good_def)

lemma count_loop_at_end_of_input:
  assumes "buf (cin w) = []"
  shows "read_numberOfOperations w n = None"
proof (rule ccontr)
  assume "read_numberOfOperations w n \<noteq> None"
  then obtain y where y: "read_numberOfOperations w n = Some y" by auto
  have "buf (cin w) \<noteq> []"
  proof (rule read_numberOfOperations.raw_induct
           [where P = "\<lambda>w n y. buf (cin w) \<noteq> []", OF _ y])
    fix loop :: "'a world \<Rightarrow> nat option \<Rightarrow> ((fault \<times> 'a world) + (nat \<times> 'a world)) option"
    fix w n y
    assume IH: "\<And>w n y. loop w n = Some y \<Longrightarrow> buf (cin w) \<noteq> []"
    assume body: "(case get_size_t (cin w) n of
        (n, s1) \<Rightarrow>
          (let w1 = (print ''Enter number of operations: '' w)\<lparr>cin := s1\<rparr>
           in if failbit s1
              then loop
                     ((print (''Couldn'' @ CHR 0x27 # ''t convert to number!'' @ endl) w1)
                        \<lparr>cin := ignore_line (clear s1)\<rparr>) n
              else
                (case n of
                   None \<Rightarrow> Some (Inl (Undefined, w1))
                 | Some k \<Rightarrow>
                     if k > MAX_OPERATORS
                     then loop
                            ((print (''Exceeded operator capacity of 16!'' @ endl) w1)
                               \<lparr>cin := ignore_line (clear s1)\<rparr>) n
                     else Some (Inr (k, w1))))) = Some y"
    show "buf (cin w) \<noteq> []"
    proof
      assume empty: "buf (cin w) = []"
      obtain n1 s1 where r: "get_size_t (cin w) n = (n1, s1)" by (cases "get_size_t (cin w) n")
      with get_size_t_at_end [OF empty, of n] have s1: "failbit s1" "buf s1 = []" by simp_all
      with body r have
        "loop ((print (''Couldn'' @ CHR 0x27 # ''t convert to number!'' @ endl)
                  ((print ''Enter number of operations: '' w)\<lparr>cin := s1\<rparr>))
                 \<lparr>cin := ignore_line (clear s1)\<rparr>) n1 = Some y"
        by (simp add: Let_def)
      from IH [OF this] ignore_line_at_end [OF s1(2)] show False by simp
    qed
  qed
  with assms show False by simp
qed

text \<open>
  C8. The loop that reads the number of operations. After any number of rejected
  attempts (a read that fails, reported with "Couldn't convert to number!", or a
  number above 16, reported with "Exceeded operator capacity of 16!", each followed by
  clearing the state, discarding the rest of the line and prompting again), a read
  that succeeds with a count of at most 16 ends the loop with that count. Whenever the
  loop ends with a count, the count is at most 16. On the input lines \<open>20\<close>, \<open>abc\<close>,
  \<open>5\<close> it reports both errors and proceeds with 5.
\<close>

theorem count_loop_proceeds_with_at_most_16:
  "(rejected_attempts (cin w) m = Some (s', out) \<and> accepted_count s' = Some (k, s'') \<longrightarrow>
      read_numberOfOperations w n
        = Some (Inr (k, w\<lparr>cin := s'', cout := cout w @ out @ prompt\<rparr>)))
   \<and> (read_numberOfOperations w n = Some (Inr (k', w')) \<longrightarrow> k' \<le> 16)
   \<and> read_numberOfOperations
         \<lparr>cin = \<lparr>buf = ''20\<newline>abc\<newline>5\<newline>'', failbit = False, eofbit = False\<rparr>, cout = [],
          numberOfSuccessfulCalculations = c\<rparr> None
       = Some (Inr (5, \<lparr>cin = \<lparr>buf = ''\<newline>'', failbit = False, eofbit = False\<rparr>,
                        cout = prompt @ ''Exceeded operator capacity of 16!\<newline>''
                          @ prompt @ ''Couldn'' @ CHR 0x27 # ''t convert to number!\<newline>''
                          @ prompt,
                        numberOfSuccessfulCalculations = c\<rparr>))"
proof -
  have "read_numberOfOperations
         \<lparr>cin = \<lparr>buf = ''20\<newline>abc\<newline>5\<newline>'', failbit = False, eofbit = False\<rparr>, cout = [],
          numberOfSuccessfulCalculations = c\<rparr> None
       = Some (Inr (5, \<lparr>cin = \<lparr>buf = ''\<newline>'', failbit = False, eofbit = False\<rparr>,
                        cout = prompt @ ''Exceeded operator capacity of 16!\<newline>''
                          @ prompt @ ''Couldn'' @ CHR 0x27 # ''t convert to number!\<newline>''
                          @ prompt,
                        numberOfSuccessfulCalculations = c\<rparr>))"
    by (simp add: read_numberOfOperations.simps stream_simps MAX_OPERATORS_def prompt_def)
  moreover have "k' \<le> 16" if "read_numberOfOperations w n = Some (Inr (k', w'))"
    using count_loop_result [OF that] by (simp add: MAX_OPERATORS_def)
  ultimately show ?thesis
    using count_loop_total [of w m s' out k s'' n] by blast
qed

theorem count_loop_proceeds_with_at_most_16_witness:
  "read_numberOfOperations
     \<lparr>cin = \<lparr>buf = '' 17 4\<newline>+3 x\<newline>'', failbit = False, eofbit = False\<rparr>, cout = ''> '',
      numberOfSuccessfulCalculations = (0::real)\<rparr> None
   = Some (Inr (3, \<lparr>cin = \<lparr>buf = '' x\<newline>'', failbit = False, eofbit = False\<rparr>,
                    cout = ''> Enter number of operations: Exceeded operator capacity of 16!\<newline>''
                      @ ''Enter number of operations: '',
                    numberOfSuccessfulCalculations = 0\<rparr>))
   \<and> (3::nat) \<le> 16"
proof -
  let ?w = "\<lparr>cin = \<lparr>buf = '' 17 4\<newline>+3 x\<newline>'', failbit = False, eofbit = False\<rparr>, cout = ''> '',
      numberOfSuccessfulCalculations = (0::real)\<rparr>"
  let ?s' = "\<lparr>buf = ''+3 x\<newline>'', failbit = False, eofbit = False\<rparr>"
  let ?s'' = "\<lparr>buf = '' x\<newline>'', failbit = False, eofbit = False\<rparr>"
  let ?out = "prompt @ ''Exceeded operator capacity of 16!\<newline>''"
  let ?w' = "?w\<lparr>cin := ?s'', cout := cout ?w @ ?out @ prompt\<rparr>"
  have pre: "rejected_attempts (cin ?w) 1 = Some (?s', ?out) \<and> accepted_count ?s' = Some (3, ?s'')"
    by (simp add: accepted_count_def stream_simps)
  from count_loop_proceeds_with_at_most_16
         [where w = ?w and m = 1 and s' = ?s' and out = ?out and k = 3 and s'' = ?s''
            and n = None,
          THEN conjunct1, THEN mp, OF pre]
  have run: "read_numberOfOperations ?w None = Some (Inr (3, ?w'))" .
  from count_loop_proceeds_with_at_most_16
         [where w = ?w and n = None and k' = 3 and w' = ?w',
          THEN conjunct2, THEN conjunct1, THEN mp, OF run]
  have "(3::nat) \<le> 16" .
  with run show ?thesis by (simp add: prompt_def)
qed

text \<open>
  C10. The loop that reads the symbols. Whenever it ends with the list of symbols,
  the last batch was valid and the stream it leaves is the stream after the \<open>n\<close>
  reads of that batch, cleared and with the rest of the line discarded: what followed
  the last symbol up to and including the next newline is gone, and \<open>failbit\<close> is not
  set. A batch that is valid at once ends the loop in that way. In a run of \<open>main\<close>
  on the lines \<open>calc\<close>, \<open>2\<close>, \<open>+ - 3 1\<close>, \<open>4\<close>, the tokens \<open>3\<close> and \<open>1\<close> are never
  read: the menu is printed once, the selection read is \<open>4\<close>, and no calculation
  starts.
\<close>

theorem rest_of_symbol_line_is_discarded:
  "(read_operationList w n ol = Some (Inr (ol', w')) \<longrightarrow>
      (\<exists>s0 ol0. read_batch 0 n s0 [] ol0 [] = Inr (True, after_reads n s0 [], ol', [])
         \<and> cin w' = ignore_line (clear (after_reads n s0 []))
         \<and> buf (cin w') = tl (dropWhile (\<lambda>c. c \<noteq> newline) (buf (after_reads n s0 [])))
         \<and> \<not> failbit (cin w')))
   \<and> (read_batch 0 n (cin w) [] ol [] = Inr (True, s1, ol1, out) \<longrightarrow>
        read_operationList w n ol
          = Some (Inr (ol1, w\<lparr>cin := ignore_line (clear (after_reads n (cin w) []))\<rparr>)))
   \<and> main (ideal pw pr)
         \<lparr>cin = \<lparr>buf = ''calc\<newline>2\<newline>+ - 3 1\<newline>4\<newline>'', failbit = False, eofbit = False\<rparr>,
          cout = [], numberOfSuccessfulCalculations = k\<rparr>
       = Some (Inr \<lparr>cin = \<lparr>buf = ''\<newline>'', failbit = False, eofbit = False\<rparr>,
                    cout = ''Enter calculator'' @ CHR 0x27 # ''s name: ''
                      @ ''Enter number of operations: '' @ legend @ menu,
                    numberOfSuccessfulCalculations = k\<rparr>)"
proof -
  have "main (ideal pw pr)
         \<lparr>cin = \<lparr>buf = ''calc\<newline>2\<newline>+ - 3 1\<newline>4\<newline>'', failbit = False, eofbit = False\<rparr>,
          cout = [], numberOfSuccessfulCalculations = k\<rparr>
       = Some (Inr \<lparr>cin = \<lparr>buf = ''\<newline>'', failbit = False, eofbit = False\<rparr>,
                    cout = ''Enter calculator'' @ CHR 0x27 # ''s name: ''
                      @ ''Enter number of operations: '' @ legend @ menu,
                    numberOfSuccessfulCalculations = k\<rparr>)"
    by (simp add: main_def main_setup_def read_numberOfOperations.simps
          read_operationList.simps read_batch.simps menu_loop.simps legend_def menu_def
          operation_simps stream_simps calculator_simps)
  moreover have "\<exists>s0 ol0. read_batch 0 n s0 [] ol0 [] = Inr (True, after_reads n s0 [], ol', [])
         \<and> cin w' = ignore_line (clear (after_reads n s0 []))
         \<and> buf (cin w') = tl (dropWhile (\<lambda>c. c \<noteq> newline) (buf (after_reads n s0 [])))
         \<and> \<not> failbit (cin w')" if "read_operationList w n ol = Some (Inr (ol', w'))"
    using read_operationList_exit [OF that] buf_ignore_line_clear by auto
  ultimately show ?thesis
    using read_operationList_valid [of n w ol s1 ol1 out] by blast
qed

theorem rest_of_symbol_line_is_discarded_witness:
  "\<exists>ol' w'. read_operationList
        \<lparr>cin = \<lparr>buf = ''\<newline>/ V junk 3\<newline>1\<newline>'', failbit = False, eofbit = False\<rparr>, cout = [],
         numberOfSuccessfulCalculations = (0::real)\<rparr> 2 (replicate 16 [])
      = Some (Inr (ol', w'))
      \<and> take 2 ol' = [''/'', ''V''] \<and> cin w' = \<lparr>buf = ''1\<newline>'', failbit = False, eofbit = False\<rparr>
      \<and> (\<exists>s0 ol0. read_batch 0 2 s0 [] ol0 [] = Inr (True, after_reads 2 s0 [], ol', [])
            \<and> buf (cin w') = tl (dropWhile (\<lambda>c. c \<noteq> newline) (buf (after_reads 2 s0 []))))"
proof -
  let ?w = "\<lparr>cin = \<lparr>buf = ''\<newline>/ V junk 3\<newline>1\<newline>'', failbit = False, eofbit = False\<rparr>, cout = [],
         numberOfSuccessfulCalculations = (0::real)\<rparr>"
  let ?s1 = "\<lparr>buf = '' junk 3\<newline>1\<newline>'', failbit = False, eofbit = False\<rparr>"
  let ?ol = "(replicate 16 [])[0 := ''/'', 1 := ''V'']"
  let ?w' = "?w\<lparr>cin := ignore_line (clear (after_reads 2 (cin ?w) []))\<rparr>"
  have pre: "read_batch 0 2 (cin ?w) [] (replicate 16 []) [] = Inr (True, ?s1, ?ol, [])"
    by (simp add: read_batch.simps stream_simps)
  from rest_of_symbol_line_is_discarded
         [where w = ?w and n = 2 and ol = "replicate 16 []" and ?s1.0 = ?s1 and ?ol1.0 = ?ol
            and out = "[]",
          THEN conjunct2, THEN conjunct1, THEN mp, OF pre]
  have run: "read_operationList ?w 2 (replicate 16 []) = Some (Inr (?ol, ?w'))" .
  from rest_of_symbol_line_is_discarded
         [where w = ?w and n = 2 and ol = "replicate 16 []" and ol' = ?ol and w' = ?w',
          THEN conjunct1, THEN mp, OF run]
  have ex: "\<exists>s0 ol0. read_batch 0 2 s0 [] ol0 [] = Inr (True, after_reads 2 s0 [], ?ol, [])
         \<and> buf (cin ?w') = tl (dropWhile (\<lambda>c. c \<noteq> newline) (buf (after_reads 2 s0 [])))"
    by blast
  have "take 2 ?ol = [''/'', ''V'']"
    by (simp add: numeral_2_eq_2 numeral_eq_Suc)
  moreover have "cin ?w' = \<lparr>buf = ''1\<newline>'', failbit = False, eofbit = False\<rparr>"
    by (simp add: numeral_2_eq_2 stream_simps)
  ultimately show ?thesis using run ex by blast
qed

end
